theory Spec2Isabelle
  imports Complex_Main "HOL-Library.Char_ord" "HOL-Library.List_Lexorder" "HOL-Library.Multiset"
begin

section \<open>Python strings\<close>

text \<open>
  A Python \<open>str\<close> is modelled as a \<^typ>\<open>string\<close> whose characters are read as the code
  points 0 to 255. The character classes below are the ones \<open>str.isspace\<close>,
  \<open>str.isalnum\<close> and \<open>str.lower\<close> implement on that range.
\<close>

definition py_isspace :: "char \<Rightarrow> bool" where
  "py_isspace c = (let n = (of_char c :: nat) in
     (9 \<le> n \<and> n \<le> 13) \<or> (28 \<le> n \<and> n \<le> 32) \<or> n = 133 \<or> n = 160)"

definition py_isalnum :: "char \<Rightarrow> bool" where
  "py_isalnum c = (let n = (of_char c :: nat) in
     (48 \<le> n \<and> n \<le> 57) \<or> (65 \<le> n \<and> n \<le> 90) \<or> (97 \<le> n \<and> n \<le> 122) \<or>
     n = 170 \<or> n = 178 \<or> n = 179 \<or> n = 181 \<or> n = 185 \<or> n = 186 \<or>
     (188 \<le> n \<and> n \<le> 190) \<or> (192 \<le> n \<and> n \<le> 214) \<or>
     (216 \<le> n \<and> n \<le> 246) \<or> 248 \<le> n)"

definition lower_char :: "char \<Rightarrow> char" where
  "lower_char c = (let n = (of_char c :: nat) in
     if (65 \<le> n \<and> n \<le> 90) \<or> (192 \<le> n \<and> n \<le> 222 \<and> n \<noteq> 215)
     then char_of (n + 32) else c)"

definition py_lower :: "string \<Rightarrow> string" where
  "py_lower s = map lower_char s"

definition py_strip :: "string \<Rightarrow> string" where
  "py_strip s = rev (dropWhile py_isspace (rev (dropWhile py_isspace s)))"

definition startswith :: "string \<Rightarrow> string \<Rightarrow> bool" where
  "startswith s p = (take (length p) s = p)"

definition endswith :: "string \<Rightarrow> string \<Rightarrow> bool" where
  "endswith s p = (length p \<le> length s \<and> drop (length s - length p) s = p)"

text \<open>\<open>py_in sub s\<close> is Python's \<open>sub in s\<close> on strings.\<close>

fun py_in :: "string \<Rightarrow> string \<Rightarrow> bool" where
  "py_in sub [] = (sub = [])"
| "py_in sub (c # cs) = (startswith (c # cs) sub \<or> py_in sub cs)"

text \<open>\<open>str(n)\<close> for a natural number and for an integer.\<close>

definition digit_char :: "nat \<Rightarrow> char" where
  "digit_char d = char_of (48 + d)"

function str_nat :: "nat \<Rightarrow> string" where
  "str_nat n = (if n < 10 then [digit_char n] else str_nat (n div 10) @ [digit_char (n mod 10)])"
  by pat_completeness auto
termination
  by (relation "measure id") auto

declare str_nat.simps [simp del]

definition str_int :: "int \<Rightarrow> string" where
  "str_int i = (if i < 0 then CHR ''-'' # str_nat (nat (- i)) else str_nat (nat i))"

text \<open>
  \<open>s.encode('utf-8')\<close>, the bytes again as characters: one byte below 128, two bytes
  from 128 to 255.
\<close>

definition utf8_char :: "char \<Rightarrow> string" where
  "utf8_char c = (let n = (of_char c :: nat) in
     if n < 128 then [c] else [char_of (192 + n div 64), char_of (128 + n mod 64)])"

definition utf8_encode :: "string \<Rightarrow> string" where
  "utf8_encode s = concat (map utf8_char s)"

section \<open>Regular expressions\<close>

text \<open>
  The patterns of the validator use literals, the classes \<open>.\<close>, \<open>[^>]\<close>, \<open>\w\<close>, \<open>\s\<close>
  and \<open>[A-Z]\<close>, concatenation, alternation, \<open>*\<close> and \<open>+\<close>, all compiled with
  \<open>re.IGNORECASE\<close> (and \<open>re.DOTALL\<close> for the XSS set). \<open>re_search r s\<close> is the truth
  value of \<open>r.search(s)\<close>: some slice of \<open>s\<close> is in the language of \<open>r\<close>. The lazy
  \<open>.*?\<close> has the language of \<open>.*\<close>. A literal is stored in lower case and compared
  with the lower-cased input character.
\<close>

datatype atom = AnyChar | Lit char | NotChar char | Word | Space | Letter

fun atom_ok :: "atom \<Rightarrow> char \<Rightarrow> bool" where
  "atom_ok AnyChar c = True"
| "atom_ok (Lit l) c = (lower_char c = l)"
| "atom_ok (NotChar l) c = (c \<noteq> l)"
| "atom_ok Word c = (py_isalnum c \<or> c = CHR ''_'')"
| "atom_ok Space c = py_isspace c"
| "atom_ok Letter c = (let n = (of_char (lower_char c) :: nat) in 97 \<le> n \<and> n \<le> 122)"

datatype rexp = Never | Eps | Ch atom | Alt rexp rexp | Seq rexp rexp | Rep rexp

fun nullable :: "rexp \<Rightarrow> bool" where
  "nullable Never = False"
| "nullable Eps = True"
| "nullable (Ch a) = False"
| "nullable (Alt r s) = (nullable r \<or> nullable s)"
| "nullable (Seq r s) = (nullable r \<and> nullable s)"
| "nullable (Rep r) = True"

fun alt :: "rexp \<Rightarrow> rexp \<Rightarrow> rexp" where
  "alt Never s = s"
| "alt r Never = r"
| "alt r s = Alt r s"

fun seq :: "rexp \<Rightarrow> rexp \<Rightarrow> rexp" where
  "seq Never s = Never"
| "seq r Never = Never"
| "seq Eps s = s"
| "seq r s = Seq r s"

fun der :: "char \<Rightarrow> rexp \<Rightarrow> rexp" where
  "der c Never = Never"
| "der c Eps = Never"
| "der c (Ch a) = (if atom_ok a c then Eps else Never)"
| "der c (Alt r s) = alt (der c r) (der c s)"
| "der c (Seq r s) =
     (if nullable r then alt (seq (der c r) s) (der c s) else seq (der c r) s)"
| "der c (Rep r) = seq (der c r) (Rep r)"

fun match_prefix :: "rexp \<Rightarrow> string \<Rightarrow> bool" where
  "match_prefix r [] = nullable r"
| "match_prefix r (c # cs) = (nullable r \<or> match_prefix (der c r) cs)"

fun re_search :: "rexp \<Rightarrow> string \<Rightarrow> bool" where
  "re_search r [] = nullable r"
| "re_search r (c # cs) = (match_prefix r (c # cs) \<or> re_search r cs)"

definition lit :: "string \<Rightarrow> rexp" where
  "lit s = foldr (\<lambda>c r. Seq (Ch (Lit c)) r) s Eps"

definition plus :: "rexp \<Rightarrow> rexp" where
  "plus r = Seq r (Rep r)"

section \<open>The secure CSV validator (security/csv\_validator.py)\<close>

definition DANGEROUS_PREFIXES :: "string list" where
  "DANGEROUS_PREFIXES =
     [''='', ''+'', ''-'', ''@'', [CHR 0x09, CHR ''=''], [CHR 0x0D, CHR ''=''], [CHR 0x0A, CHR ''='']]"

definition DANGEROUS_FUNCTIONS :: "string list" where
  "DANGEROUS_FUNCTIONS =
     [''cmd'', ''exec'', ''system'', ''shell'', ''powershell'', ''bash'',
      ''eval'', ''javascript'', ''vbscript'', ''macro'', ''formula'']"

text \<open>\<open><name[^>]*>\<close> and \<open><name[^>]*>.*?</name>\<close>.\<close>

definition tag_open :: "string \<Rightarrow> rexp" where
  "tag_open name =
     Seq (lit (CHR ''<'' # name)) (Seq (Rep (Ch (NotChar CHR ''>''))) (Ch (Lit CHR ''>'')))"

definition tag_pair :: "string \<Rightarrow> rexp" where
  "tag_pair name = Seq (tag_open name) (Seq (Rep (Ch AnyChar)) (lit (''</'' @ name @ ''>'')))"

definition XSS_PATTERNS :: "rexp list" where
  "XSS_PATTERNS =
     [tag_pair ''script'',
      lit ''javascript:'',
      lit ''vbscript:'',
      Seq (lit ''on'') (Seq (plus (Ch Word)) (Seq (Rep (Ch Space)) (Ch (Lit CHR ''='')))),
      tag_open ''iframe'',
      tag_open ''object'',
      tag_open ''embed'',
      tag_open ''link'',
      tag_open ''meta'',
      tag_pair ''style'']"

text \<open>\<open>re.compile('|'.join(XSS_PATTERNS), re.IGNORECASE | re.DOTALL)\<close>.\<close>

definition xss_regex :: rexp where
  "xss_regex = foldr Alt XSS_PATTERNS Never"

text \<open>The formula pattern \<open>=\s*[A-Z]+\s*\(\<close>, case-insensitive.\<close>

definition formula_regex :: rexp where
  "formula_regex =
     Seq (Ch (Lit CHR ''=''))
       (Seq (Rep (Ch Space)) (Seq (plus (Ch Letter)) (Seq (Rep (Ch Space)) (Ch (Lit CHR ''('')))))"

definition check_csv_injection :: "string \<Rightarrow> string option" where
  "check_csv_injection cell =
     (if cell = [] then None
      else case find (\<lambda>prefix. startswith (py_strip cell) prefix) DANGEROUS_PREFIXES of
        Some prefix \<Rightarrow> Some (''dangerous_prefix_'' @ py_strip prefix)
      | None \<Rightarrow>
         (case find (\<lambda>func. py_in func (py_lower cell)) DANGEROUS_FUNCTIONS of
            Some func \<Rightarrow> Some (''dangerous_function_'' @ func)
          | None \<Rightarrow> if re_search formula_regex cell then Some ''formula_pattern'' else None))"

text \<open>
  \<open>html.unescape\<close> returns its argument when it holds no \<open>&\<close> and otherwise replaces
  the character references; the replacement, a table of the standard library, is the
  parameter \<open>charref_sub\<close>.
\<close>

definition html_unescape :: "(string \<Rightarrow> string) \<Rightarrow> string \<Rightarrow> string" where
  "html_unescape charref_sub s = (if CHR ''&'' \<in> set s then charref_sub s else s)"

definition suspicious_chars :: "char list" where
  "suspicious_chars =
     [CHR ''<'', CHR ''>'', CHR 0x22, CHR 0x27, CHR ''&'', CHR ''%'', CHR 0x5C]"

definition check_xss_payload :: "(string \<Rightarrow> string) \<Rightarrow> string \<Rightarrow> string option" where
  "check_xss_payload charref_sub cell =
     (if cell = [] then None
      else if re_search xss_regex cell then Some ''xss_pattern_detected''
      else let decoded = html_unescape charref_sub cell in
        if decoded \<noteq> cell \<and> re_search xss_regex decoded then Some ''encoded_xss_payload''
        else let suspicious_count = length (filter (\<lambda>char. char \<in> set cell) suspicious_chars) in
          if suspicious_count > 3 then Some ''suspicious_character_sequence'' else None)"

record security_issue =
  issue_type :: string
  location :: string
  content :: string
  risk :: string

text \<open>
  The result dictionaries of the validator: a key that a dictionary does not hold is
  \<open>None\<close>.
\<close>

record validation_result =
  valid :: bool
  error :: "string option"
  security_risk :: "string option"
  security_issues :: "security_issue list option"
  file_size :: "nat option"
  file_hash :: "string option"
  rows_processed :: "nat option"
  security_checks_passed :: "bool option"

definition rejected :: "string \<Rightarrow> string \<Rightarrow> validation_result" where
  "rejected msg risk_tag =
     \<lparr>valid = False, error = Some msg, security_risk = Some risk_tag, security_issues = None,
      file_size = None, file_hash = None, rows_processed = None,
      security_checks_passed = None\<rparr>"

text \<open>
  \<open>parsed\<close> is what \<open>list(csv.reader(io.StringIO(content)))\<close> evaluates to: the rows,
  or \<open>Inl\<close> the text of the \<open>csv.Error\<close> it raises.
\<close>

definition validate_csv_structure :: "string + string list list \<Rightarrow> validation_result" where
  "validate_csv_structure parsed =
     (case parsed of
        Inl e \<Rightarrow> rejected (''Invalid CSV format: '' @ e) ''malformed_csv''
      | Inr rows \<Rightarrow>
         (if rows = [] then rejected ''CSV file is empty'' ''empty_file''
          else case find (\<lambda>(i, row). length row > 50) (enumerate 0 rows) of
            Some (i, row) \<Rightarrow>
              rejected (''Row '' @ str_nat (i + 1) @ '' has too many columns ('' @
                        str_nat (length row) @ ''). Maximum allowed: '' @ str_nat 50)
                ''excessive_columns''
          | None \<Rightarrow>
             (if length rows > 10000
              then rejected (''File has too many rows ('' @ str_nat (length rows) @
                             ''). Maximum allowed: '' @ str_nat 10000) ''excessive_rows''
              else \<lparr>valid = True, error = None, security_risk = None, security_issues = None,
                    file_size = None, file_hash = None, rows_processed = Some (length rows),
                    security_checks_passed = None\<rparr>)))"

definition sample :: "string \<Rightarrow> string" where
  "sample cell = (if length cell > 50 then take 50 cell @ ''...'' else cell)"

definition cell_location :: "nat \<Rightarrow> nat \<Rightarrow> string" where
  "cell_location row_num col_num = ''Row '' @ str_nat row_num @ '', Column '' @ str_nat col_num"

text \<open>The body of the inner loop of \<open>_validate_content_security\<close> for one cell.\<close>

definition cell_issues :: "(string \<Rightarrow> string) \<Rightarrow> nat \<Rightarrow> nat \<Rightarrow> string \<Rightarrow> security_issue list" where
  "cell_issues charref_sub row_num col_num cell =
     (if cell = [] then []
      else
        (case check_csv_injection cell of
           None \<Rightarrow> []
         | Some injection_check \<Rightarrow>
             [\<lparr>issue_type = ''csv_injection'', location = cell_location row_num col_num,
               content = sample cell, risk = injection_check\<rparr>]) @
        (case check_xss_payload charref_sub cell of
           None \<Rightarrow> []
         | Some xss_check \<Rightarrow>
             [\<lparr>issue_type = ''xss_payload'', location = cell_location row_num col_num,
               content = sample cell, risk = xss_check\<rparr>]) @
        (if length cell > 1000
         then [\<lparr>issue_type = ''excessive_length'', location = cell_location row_num col_num,
                content = ''Cell length: '' @ str_nat (length cell) @ '' characters'',
                risk = ''potential_buffer_overflow''\<rparr>]
         else []))"

definition collect_issues :: "(string \<Rightarrow> string) \<Rightarrow> string list list \<Rightarrow> security_issue list" where
  "collect_issues charref_sub rows =
     concat (map (\<lambda>(row_num, row).
        concat (map (\<lambda>(col_num, cell). cell_issues charref_sub row_num col_num cell)
                  (enumerate 1 row)))
       (enumerate 1 rows))"

definition validate_content_security ::
  "(string \<Rightarrow> string) \<Rightarrow> string + string list list \<Rightarrow> validation_result" where
  "validate_content_security charref_sub parsed =
     (case parsed of
        Inl e \<Rightarrow> rejected (''Content security validation failed: '' @ e) ''validation_error''
      | Inr rows \<Rightarrow>
         (let issues = collect_issues charref_sub rows in
          if issues \<noteq> []
          then \<lparr>valid = False,
                error = Some (''Security threats detected: '' @ str_nat (length issues) @
                              '' issues found''),
                security_risk = Some ''content_threats'', security_issues = Some issues,
                file_size = None, file_hash = None, rows_processed = None,
                security_checks_passed = None\<rparr>
          else \<lparr>valid = True, error = None, security_risk = None, security_issues = None,
                file_size = None, file_hash = None, rows_processed = None,
                security_checks_passed = None\<rparr>))"

text \<open>
  \<open>validate_file_security\<close>. \<open>max_file_size\<close> is the attribute of the validator,
  \<open>sha256_hex\<close> stands for \<open>hashlib.sha256(bytes).hexdigest()\<close>. The text is parsed
  twice by the source, by the structure pass and by the content pass, with the same
  outcome \<open>parsed\<close>. A string of code points below 256 always encodes, so the
  \<open>encoding_error\<close> branch is never taken.
\<close>

definition validate_file_security ::
  "nat \<Rightarrow> (string \<Rightarrow> string) \<Rightarrow> (string \<Rightarrow> string) \<Rightarrow> string + string list list \<Rightarrow>
   string \<Rightarrow> string \<Rightarrow> validation_result" where
  "validate_file_security max_file_size sha256_hex charref_sub parsed file_content filename =
     (let size = length (utf8_encode file_content) in
      if size > max_file_size
      then rejected (''File size ('' @ str_nat size @ '' bytes) exceeds maximum limit ('' @
                     str_nat max_file_size @ '' bytes)'') ''file_size_exceeded''
      else if filename \<noteq> [] \<and> \<not> endswith (py_lower filename) ''.csv''
      then rejected ''Invalid file extension. Only .csv files are allowed.'' ''invalid_extension''
      else let csv_validation = validate_csv_structure parsed in
        if \<not> valid csv_validation then csv_validation
        else let security_validation = validate_content_security charref_sub parsed in
          if \<not> valid security_validation then security_validation
          else \<lparr>valid = True, error = None, security_risk = None, security_issues = None,
                file_size = Some size,
                file_hash = Some (sha256_hex (utf8_encode file_content)),
                rows_processed =
                  Some (case rows_processed csv_validation of Some n \<Rightarrow> n | None \<Rightarrow> 0),
                security_checks_passed = Some True\<rparr>)"

text \<open>
  The count that the specification describes for the suspicion heuristic: the positions
  of the cell that hold one of the seven characters.
\<close>

definition spec_suspicious_occurrences :: "string \<Rightarrow> nat" where
  "spec_suspicious_occurrences cell = length (filter (\<lambda>c. c \<in> set suspicious_chars) cell)"

section \<open>The CSV service (services/csv\_service.py)\<close>

text \<open>
  The result dictionary of \<open>validate_csv_file\<close>, its keys prefixed with \<open>csv_\<close>.
\<close>

record csv_result =
  csv_valid :: bool
  csv_error :: "string option"
  csv_entries :: "string list option"
  csv_total_rows :: "nat option"
  csv_valid_entries :: "nat option"
  csv_errors :: "string list option"

definition csv_invalid :: "string \<Rightarrow> csv_result" where
  "csv_invalid msg =
     \<lparr>csv_valid = False, csv_error = Some msg, csv_entries = None, csv_total_rows = None,
      csv_valid_entries = None, csv_errors = None\<rparr>"

text \<open>\<open>self.max_file_size\<close> of \<open>CSVService\<close>, set to 10 MiB by the constructor.\<close>

definition csv_max_file_size :: nat where
  "csv_max_file_size = 10 * 1024 * 1024"

definition required_headers :: "string list" where
  "required_headers = [''entry'', ''name'']"

text \<open>
  The search for the entry name of a row: the first header that is a required one and
  whose column the row has gives \<open>row[j].strip()\<close>; with no such column the name stays
  empty.
\<close>

definition find_entry_name :: "string list \<Rightarrow> string list \<Rightarrow> string" where
  "find_entry_name headers row =
     (case find (\<lambda>(j, header). header \<in> set required_headers \<and> j < length row)
             (enumerate 0 headers) of
        Some (j, header) \<Rightarrow> py_strip (row ! j)
      | None \<Rightarrow> [])"

definition blank_row :: "string list \<Rightarrow> bool" where
  "blank_row row = (row = [] \<or> list_all (\<lambda>cell. py_strip cell = []) row)"

text \<open>
  The loop over \<open>enumerate(rows[1:], start=2)\<close>: \<open>i\<close> is the number of the row at the
  head of the list, the pair holds \<open>valid_entries\<close> and \<open>errors\<close>.
\<close>

fun validate_rows ::
  "string list \<Rightarrow> nat \<Rightarrow> string list list \<Rightarrow> string list \<times> string list \<Rightarrow>
   string list \<times> string list" where
  "validate_rows headers i [] acc = acc"
| "validate_rows headers i (row # rest) (valid_entries, errors) =
     (if blank_row row then validate_rows headers (i + 1) rest (valid_entries, errors)
      else let entry_name = find_entry_name headers row in
        if entry_name = []
        then validate_rows headers (i + 1) rest
               (valid_entries, errors @ [''Row '' @ str_nat i @ '': Missing entry name''])
        else if length entry_name > 100
        then validate_rows headers (i + 1) rest
               (valid_entries,
                errors @ [''Row '' @ str_nat i @ '': Entry name too long (max 100 characters)''])
        else validate_rows headers (i + 1) rest (valid_entries @ [entry_name], errors))"

text \<open>
  \<open>validate_csv_file\<close>; \<open>parsed\<close> is the outcome of \<open>list(csv.reader(...))\<close> on the
  content, as for the validator.
\<close>

definition validate_csv_file :: "string + string list list \<Rightarrow> string \<Rightarrow> csv_result" where
  "validate_csv_file parsed file_content =
     (if length (utf8_encode file_content) > csv_max_file_size
      then csv_invalid (''File size exceeds maximum limit of '' @
                        str_nat (csv_max_file_size div (1024 * 1024)) @ ''MB'')
      else case parsed of
        Inl e \<Rightarrow> csv_invalid (''CSV parsing error: '' @ e)
      | Inr rows \<Rightarrow>
         (if rows = [] then csv_invalid ''CSV file is empty''
          else let headers = map (\<lambda>h. py_lower (py_strip h)) (hd rows) in
            if list_ex (\<lambda>header. header \<in> set headers) required_headers
            then
              (case validate_rows headers 2 (tl rows) ([], []) of
                 (valid_entries, errors) \<Rightarrow>
                   if valid_entries = [] then csv_invalid ''No valid entries found in CSV''
                   else \<lparr>csv_valid = True, csv_error = None, csv_entries = Some valid_entries,
                         csv_total_rows = Some (length rows - 1),
                         csv_valid_entries = Some (length valid_entries),
                         csv_errors = Some errors\<rparr>)
            else csv_invalid
                   ''CSV must contain at least one column named \"entry\" or \"name\"''))"

text \<open>
  \<open>validate_data_integrity\<close> on two lists of strings. \<open>list(a_set)\<close> lists a set in an
  order Python does not fix, so the two entry lists are kept as sets. The score is the
  exact quotient; Python rounds it to a double, which is exact when the quotient is one.
  Sets of strings and the guarded division do not raise, so the \<open>except\<close> branch is not
  reached.
\<close>

record integrity_check =
  passed :: bool
  original_count :: nat
  processed_count :: nat
  missing_entries :: "string set"
  extra_entries :: "string set"
  integrity_score :: rat

definition validate_data_integrity :: "string list \<Rightarrow> string list \<Rightarrow> integrity_check" where
  "validate_data_integrity original_data processed_data =
     (let original_set = set original_data;
          processed_set = set processed_data;
          missing = original_set - processed_set;
          extra = processed_set - original_set
      in \<lparr>passed = (card missing = 0 \<and> card extra = 0),
          original_count = length original_data,
          processed_count = length processed_data,
          missing_entries = missing,
          extra_entries = extra,
          integrity_score =
            (if original_data \<noteq> []
             then of_nat (card (processed_set \<inter> original_set)) / of_nat (card original_set)
             else 1)\<rparr>)"

section \<open>The analytics service (services/analytics\_service.py)\<close>

subsection \<open>Event payloads and their JSON text\<close>

text \<open>
  The values the service is called with: an event payload (\<open>Dict[str, Any]\<close>) and
  what it is built from, and the event type and the ids, which the route takes from the
  request as they are. A dictionary is the list of its items in insertion order, its
  keys strings, no key twice. \<open>PBytes\<close>, a \<open>bytes\<close> object, stands for the values
  \<open>json.dumps\<close> refuses. Floating-point values are left out.
\<close>

datatype py_value =
    PNone
  | PBool bool
  | PInt int
  | PStr string
  | PBytes string
  | PList "py_value list"
  | PDict "(string \<times> py_value) list"

text \<open>\<open>bool(v)\<close>, the truth value of \<open>if v:\<close>.\<close>

fun py_truthy :: "py_value \<Rightarrow> bool" where
  "py_truthy PNone = False"
| "py_truthy (PBool b) = b"
| "py_truthy (PInt i) = (i \<noteq> 0)"
| "py_truthy (PStr s) = (s \<noteq> [])"
| "py_truthy (PBytes b) = (b \<noteq> [])"
| "py_truthy (PList xs) = (xs \<noteq> [])"
| "py_truthy (PDict kvs) = (kvs \<noteq> [])"

text \<open>\<open>d.get(key, default)\<close>.\<close>

definition dict_get :: "(string \<times> py_value) list \<Rightarrow> string \<Rightarrow> py_value \<Rightarrow> py_value" where
  "dict_get d key fallback = (case map_of d key of Some v \<Rightarrow> v | None \<Rightarrow> fallback)"

text \<open>
  \<open>json.dumps(v, sort_keys=True)\<close> with the default \<open>ensure_ascii\<close> and separators;
  \<open>None\<close> is the \<open>TypeError\<close> for a value that cannot be serialised.
\<close>

definition hex_digit :: "nat \<Rightarrow> char" where
  "hex_digit d = (if d < 10 then char_of (48 + d) else char_of (87 + d))"

definition json_escape_char :: "char \<Rightarrow> string" where
  "json_escape_char c = (let n = (of_char c :: nat) in
     if n = 34 then [CHR 0x5C, CHR 0x22]
     else if n = 92 then [CHR 0x5C, CHR 0x5C]
     else if n = 10 then [CHR 0x5C, CHR ''n'']
     else if n = 13 then [CHR 0x5C, CHR ''r'']
     else if n = 9 then [CHR 0x5C, CHR ''t'']
     else if n = 8 then [CHR 0x5C, CHR ''b'']
     else if n = 12 then [CHR 0x5C, CHR ''f'']
     else if 32 \<le> n \<and> n \<le> 126 then [c]
     else [CHR 0x5C, CHR ''u'', CHR ''0'', CHR ''0'', hex_digit (n div 16), hex_digit (n mod 16)])"

definition json_string :: "string \<Rightarrow> string" where
  "json_string s = [CHR 0x22] @ concat (map json_escape_char s) @ [CHR 0x22]"

fun join :: "string \<Rightarrow> string list \<Rightarrow> string" where
  "join sep [] = []"
| "join sep [x] = x"
| "join sep (x # y # ys) = x @ sep @ join sep (y # ys)"

fun sequence :: "'a option list \<Rightarrow> 'a list option" where
  "sequence [] = Some []"
| "sequence (None # xs) = None"
| "sequence (Some x # xs) = (case sequence xs of None \<Rightarrow> None | Some ys \<Rightarrow> Some (x # ys))"

fun json_dumps :: "py_value \<Rightarrow> string option" where
  "json_dumps PNone = Some ''null''"
| "json_dumps (PBool b) = Some (if b then ''true'' else ''false'')"
| "json_dumps (PInt i) = Some (str_int i)"
| "json_dumps (PStr s) = Some (json_string s)"
| "json_dumps (PBytes b) = None"
| "json_dumps (PList xs) =
     (case sequence (map json_dumps xs) of
        None \<Rightarrow> None
      | Some ys \<Rightarrow> Some (''['' @ join '', '' ys @ '']''))"
| "json_dumps (PDict kvs) =
     (case sequence (map (\<lambda>(k, v). case json_dumps v of
                                       None \<Rightarrow> None
                                     | Some y \<Rightarrow> Some (json_string k @ '': '' @ y))
                       (sort_key fst kvs)) of
        None \<Rightarrow> None
      | Some ys \<Rightarrow> Some (''{'' @ join '', '' ys @ ''}''))"

text \<open>
  \<open>str(v)\<close>, which an f-string applies to the value it formats, and \<open>repr(v)\<close>, which
  \<open>str\<close> applies to the elements of a list or a dictionary. A string is quoted with
  \<open>"\<close> when it holds \<open>'\<close> and no \<open>"\<close>, and with \<open>'\<close> otherwise.
\<close>

definition py_isprintable :: "char \<Rightarrow> bool" where
  "py_isprintable c = (let n = (of_char c :: nat) in
     (32 \<le> n \<and> n \<le> 126) \<or> (161 \<le> n \<and> n \<noteq> 173))"

definition repr_quote :: "string \<Rightarrow> char" where
  "repr_quote s = (if CHR 0x27 \<in> set s \<and> CHR 0x22 \<notin> set s then CHR 0x22 else CHR 0x27)"

definition repr_char :: "bool \<Rightarrow> char \<Rightarrow> char \<Rightarrow> string" where
  "repr_char is_bytes q c = (let n = (of_char c :: nat) in
     if c = q \<or> n = 92 then [CHR 0x5C, c]
     else if n = 9 then [CHR 0x5C, CHR ''t'']
     else if n = 10 then [CHR 0x5C, CHR ''n'']
     else if n = 13 then [CHR 0x5C, CHR ''r'']
     else if (if is_bytes then 32 \<le> n \<and> n \<le> 126 else py_isprintable c) then [c]
     else [CHR 0x5C, CHR ''x'', hex_digit (n div 16), hex_digit (n mod 16)])"

definition repr_str :: "string \<Rightarrow> string" where
  "repr_str s = [repr_quote s] @ concat (map (repr_char False (repr_quote s)) s) @ [repr_quote s]"

definition repr_bytes :: "string \<Rightarrow> string" where
  "repr_bytes b =
     ''b'' @ [repr_quote b] @ concat (map (repr_char True (repr_quote b)) b) @ [repr_quote b]"

fun py_repr :: "py_value \<Rightarrow> string" where
  "py_repr PNone = ''None''"
| "py_repr (PBool b) = (if b then ''True'' else ''False'')"
| "py_repr (PInt i) = str_int i"
| "py_repr (PStr s) = repr_str s"
| "py_repr (PBytes b) = repr_bytes b"
| "py_repr (PList xs) = ''['' @ join '', '' (map py_repr xs) @ '']''"
| "py_repr (PDict kvs) =
     ''{'' @ join '', '' (map (\<lambda>(k, v). repr_str k @ '': '' @ py_repr v) kvs) @ ''}''"

fun py_str :: "py_value \<Rightarrow> string" where
  "py_str (PStr s) = s"
| "py_str v = py_repr v"

subsection \<open>The database\<close>

text \<open>
  The values SQLite stores, and what \<open>sqlite3\<close> makes of a Python value bound to a
  \<open>?\<close>: a list or a dictionary is refused, and so is an integer outside 64 bits.
  The exceptions are those that can leave a statement of the service: the \<open>TypeError\<close>
  of \<open>json.dumps\<close>, the \<open>AttributeError\<close> of \<open>.get\<close> on a payload that is no
  dictionary, the two binding errors, the \<open>IntegrityError\<close> of a \<open>NOT NULL\<close>
  column, and any other error of SQLite with its message.
\<close>

datatype sql_value = SqlNull | SqlInt int | SqlText string | SqlBlob string

datatype py_exception =
    NotJsonSerializable
  | NoSuchAttribute
  | UnsupportedBinding
  | IntTooLarge
  | NotNullConstraint
  | DatabaseError string

fun bind_param :: "py_value \<Rightarrow> py_exception + sql_value" where
  "bind_param PNone = Inr SqlNull"
| "bind_param (PBool b) = Inr (SqlInt (if b then 1 else 0))"
| "bind_param (PInt i) =
     (if - (2 ^ 63) \<le> i \<and> i < 2 ^ 63 then Inr (SqlInt i) else Inl IntTooLarge)"
| "bind_param (PStr s) = Inr (SqlText s)"
| "bind_param (PBytes b) = Inr (SqlBlob b)"
| "bind_param (PList xs) = Inl UnsupportedBinding"
| "bind_param (PDict kvs) = Inl UnsupportedBinding"

text \<open>
  Column affinity. A \<open>TEXT\<close> column stores an integer as its decimal text, and a value
  compared with a \<open>TEXT\<close> column is converted the same way. An \<open>INTEGER\<close> column
  converts a text that looks like a number; that conversion of SQLite is the parameter
  \<open>numeric_of_text\<close>. \<open>sql_eq\<close> is the comparison \<open>=\<close> of a \<open>WHERE\<close> clause and
  of a \<open>UNIQUE\<close> constraint: \<open>NULL\<close> is equal to nothing.
\<close>

fun text_affinity :: "sql_value \<Rightarrow> sql_value" where
  "text_affinity (SqlInt i) = SqlText (str_int i)"
| "text_affinity v = v"

fun integer_affinity :: "(string \<Rightarrow> sql_value) \<Rightarrow> sql_value \<Rightarrow> sql_value" where
  "integer_affinity numeric_of_text (SqlText s) = numeric_of_text s"
| "integer_affinity numeric_of_text v = v"

definition sql_eq :: "sql_value \<Rightarrow> sql_value \<Rightarrow> bool" where
  "sql_eq a b = (a \<noteq> SqlNull \<and> b \<noteq> SqlNull \<and> a = b)"

text \<open>
  The four tables, each the list of its rows in insertion order. The surrogate \<open>id\<close>
  columns are not kept. The \<open>TEXT\<close> columns that take a caller's value hold what SQLite
  stores for it. The counters are unbounded integers (SQLite's are 64 bits wide, and
  \<open>engagement_score\<close> is a \<open>REAL\<close> column that only ever holds whole numbers).
\<close>

record analytics_event =
  ev_event_type :: sql_value
  ev_event_data :: string
  ev_wheel_id :: sql_value
  ev_user_id :: sql_value
  ev_session_id :: sql_value
  ev_timestamp :: string
  ev_ip_address :: "string option"
  ev_user_agent :: "string option"
  ev_data_hash :: string
  ev_created_at :: string

record wheel_metrics_row =
  wm_wheel_id :: sql_value
  wm_wheel_title :: sql_value
  wm_total_spins :: int
  wm_unique_users :: int
  wm_total_entries :: sql_value
  wm_created_at :: string
  wm_updated_at :: string

record winner_frequency_row =
  wf_wheel_id :: sql_value
  wf_winner_name :: sql_value
  wf_frequency_count :: int
  wf_last_won :: string
  wf_created_at :: string
  wf_updated_at :: string

record user_engagement_row =
  ue_user_id :: sql_value
  ue_session_id :: sql_value
  ue_first_visit :: string
  ue_last_visit :: string
  ue_total_spins :: int
  ue_total_wheels_created :: int
  ue_total_time_spent :: int
  ue_engagement_score :: int
  ue_created_at :: string
  ue_updated_at :: string

record database =
  analytics_events :: "analytics_event list"
  wheel_metrics :: "wheel_metrics_row list"
  winner_frequency :: "winner_frequency_row list"
  user_engagement :: "user_engagement_row list"

text \<open>
  The steps at which SQLite can fail on its own account (the file cannot be opened, the
  database is locked, the disk is full): opening the connection, running the \<open>n\<close>-th
  statement of the call, and the commit.
\<close>

datatype db_step = Connect | Execute nat | Commit

text \<open>
  What a call reads from outside: \<open>hashlib.sha256(bytes).hexdigest()\<close>, SQLite's
  conversion of a text stored in an \<open>INTEGER\<close> column, \<open>datetime.now().isoformat()\<close>,
  SQLite's \<open>CURRENT_TIMESTAMP\<close>, the proleptic Gregorian ordinal of the day of
  \<open>datetime.now()\<close>, and the error, if any, that SQLite raises at each step of the
  connection of \<open>record_event\<close> and of the connection of \<open>_update_metrics\<close>.
\<close>

record env =
  env_sha256_hex :: "string \<Rightarrow> string"
  env_numeric_of_text :: "string \<Rightarrow> sql_value"
  env_now :: string
  env_current_timestamp :: string
  env_today :: int
  env_record_fault :: "db_step \<Rightarrow> py_exception option"
  env_metrics_fault :: "db_step \<Rightarrow> py_exception option"

subsection \<open>Updating the metrics\<close>

text \<open>
  \<open>event_data.get(key, default)\<close>: the payload is declared a dictionary, and the
  route passes whatever the request holds; anything else has no \<open>get\<close>.
\<close>

fun event_data_get :: "py_value \<Rightarrow> string \<Rightarrow> py_value \<Rightarrow> py_exception + py_value" where
  "event_data_get (PDict d) key fallback = Inr (dict_get d key fallback)"
| "event_data_get v key fallback = Inl NoSuchAttribute"

text \<open>
  \<open>SELECT COUNT(DISTINCT user_id) FROM analytics_events WHERE wheel_id = ? AND
  event_type = 'wheel_spin'\<close>: \<open>NULL\<close> user ids are not counted.
\<close>

definition spin_user_ids :: "database \<Rightarrow> sql_value \<Rightarrow> sql_value list" where
  "spin_user_ids db wheel =
     filter (\<lambda>u. u \<noteq> SqlNull)
       (map ev_user_id
          (filter (\<lambda>e. sql_eq (ev_wheel_id e) wheel \<and> ev_event_type e = SqlText ''wheel_spin'')
             (analytics_events db)))"

definition count_distinct_users :: "database \<Rightarrow> sql_value \<Rightarrow> int" where
  "count_distinct_users db wheel = int (length (remdups (spin_user_ids db wheel)))"

definition find_wheel_metrics :: "database \<Rightarrow> sql_value \<Rightarrow> wheel_metrics_row option" where
  "find_wheel_metrics db wheel = find (\<lambda>r. sql_eq (wm_wheel_id r) wheel) (wheel_metrics db)"

definition find_winner :: "database \<Rightarrow> sql_value \<Rightarrow> sql_value \<Rightarrow> winner_frequency_row option" where
  "find_winner db wheel name =
     find (\<lambda>r. sql_eq (wf_wheel_id r) wheel \<and> sql_eq (wf_winner_name r) name) (winner_frequency db)"

definition find_engagement :: "database \<Rightarrow> sql_value \<Rightarrow> sql_value \<Rightarrow> user_engagement_row option" where
  "find_engagement db user session =
     find (\<lambda>r. sql_eq (ue_user_id r) user \<and> sql_eq (ue_session_id r) session) (user_engagement db)"

text \<open>
  The first statement of \<open>_update_metrics\<close>, \<open>INSERT OR REPLACE INTO wheel_metrics\<close>:
  Python reads the two payload values, the parameters are bound in the order of the
  \<open>?\<close>, and the row of the wheel, if any, is replaced by the new one. Here and below,
  where a statement can fail for more than one reason, the error of the parameters comes
  first, then the constraint, then the fault of SQLite; which one is reported changes
  the log entry and nothing else.
\<close>

definition upsert_wheel_metrics ::
  "env \<Rightarrow> database \<Rightarrow> py_value \<Rightarrow> py_value \<Rightarrow> py_exception + database" where
  "upsert_wheel_metrics e db wheel_id event_data =
     (case event_data_get event_data ''wheel_title'' (PStr []) of
        Inl ex \<Rightarrow> Inl ex
      | Inr wheel_title \<Rightarrow>
     (case event_data_get event_data ''total_entries'' (PInt 0) of
        Inl ex \<Rightarrow> Inl ex
      | Inr total_entries \<Rightarrow>
     (case bind_param wheel_id of
        Inl ex \<Rightarrow> Inl ex
      | Inr wheel \<Rightarrow>
     (case bind_param wheel_title of
        Inl ex \<Rightarrow> Inl ex
      | Inr title_value \<Rightarrow>
     (case bind_param total_entries of
        Inl ex \<Rightarrow> Inl ex
      | Inr entries_value \<Rightarrow>
         if wheel = SqlNull then Inl NotNullConstraint
         else
     (case env_metrics_fault e (Execute 1) of
        Some ex \<Rightarrow> Inl ex
      | None \<Rightarrow>
          Inr (db\<lparr>wheel_metrics :=
                 filter (\<lambda>r. \<not> sql_eq (wm_wheel_id r) (text_affinity wheel)) (wheel_metrics db) @
                 [\<lparr>wm_wheel_id = text_affinity wheel,
                   wm_wheel_title = text_affinity title_value,
                   wm_total_spins =
                     (case find_wheel_metrics db (text_affinity wheel) of
                        Some r \<Rightarrow> wm_total_spins r | None \<Rightarrow> 0) + 1,
                   wm_unique_users = count_distinct_users db (text_affinity wheel),
                   wm_total_entries = integer_affinity (env_numeric_of_text e) entries_value,
                   wm_created_at = env_current_timestamp e,
                   wm_updated_at = env_current_timestamp e\<rparr>]\<rparr>)))))))"

text \<open>The second statement, \<open>INSERT OR REPLACE INTO winner_frequency\<close>, run for a winner
  that is true as a condition.\<close>

definition upsert_winner ::
  "env \<Rightarrow> database \<Rightarrow> py_value \<Rightarrow> py_value \<Rightarrow> py_exception + database" where
  "upsert_winner e db wheel_id winner =
     (case bind_param wheel_id of
        Inl ex \<Rightarrow> Inl ex
      | Inr wheel \<Rightarrow>
     (case bind_param winner of
        Inl ex \<Rightarrow> Inl ex
      | Inr name \<Rightarrow>
         if wheel = SqlNull \<or> name = SqlNull then Inl NotNullConstraint
         else
     (case env_metrics_fault e (Execute 2) of
        Some ex \<Rightarrow> Inl ex
      | None \<Rightarrow>
          Inr (db\<lparr>winner_frequency :=
                 filter (\<lambda>r. \<not> (sql_eq (wf_wheel_id r) (text_affinity wheel) \<and>
                                 sql_eq (wf_winner_name r) (text_affinity name)))
                   (winner_frequency db) @
                 [\<lparr>wf_wheel_id = text_affinity wheel,
                   wf_winner_name = text_affinity name,
                   wf_frequency_count =
                     (case find_winner db (text_affinity wheel) (text_affinity name) of
                        Some r \<Rightarrow> wf_frequency_count r | None \<Rightarrow> 0) + 1,
                   wf_last_won = env_current_timestamp e,
                   wf_created_at = env_current_timestamp e,
                   wf_updated_at = env_current_timestamp e\<rparr>]\<rparr>))))"

text \<open>
  The third statement, \<open>INSERT OR REPLACE INTO user_engagement\<close>. The event type is
  compared with the two literals as it was bound, with no conversion.
\<close>

definition upsert_engagement ::
  "env \<Rightarrow> database \<Rightarrow> py_value \<Rightarrow> py_value \<Rightarrow> py_value \<Rightarrow> py_exception + database" where
  "upsert_engagement e db event_type user_id session_id =
     (case bind_param user_id of
        Inl ex \<Rightarrow> Inl ex
      | Inr user \<Rightarrow>
     (case bind_param session_id of
        Inl ex \<Rightarrow> Inl ex
      | Inr session \<Rightarrow>
     (case bind_param event_type of
        Inl ex \<Rightarrow> Inl ex
      | Inr type_value \<Rightarrow>
         if user = SqlNull \<or> session = SqlNull then Inl NotNullConstraint
         else
     (case env_metrics_fault e (Execute 3) of
        Some ex \<Rightarrow> Inl ex
      | None \<Rightarrow>
         (let prior = find_engagement db (text_affinity user) (text_affinity session) in
          Inr (db\<lparr>user_engagement :=
                 filter (\<lambda>r. \<not> (sql_eq (ue_user_id r) (text_affinity user) \<and>
                                 sql_eq (ue_session_id r) (text_affinity session)))
                   (user_engagement db) @
                 [\<lparr>ue_user_id = text_affinity user,
                   ue_session_id = text_affinity session,
                   ue_first_visit =
                     (case prior of Some r \<Rightarrow> ue_first_visit r | None \<Rightarrow> env_current_timestamp e),
                   ue_last_visit = env_current_timestamp e,
                   ue_total_spins =
                     (case prior of Some r \<Rightarrow> ue_total_spins r | None \<Rightarrow> 0) +
                     (if type_value = SqlText ''wheel_spin'' then 1 else 0),
                   ue_total_wheels_created =
                     (case prior of Some r \<Rightarrow> ue_total_wheels_created r | None \<Rightarrow> 0) +
                     (if type_value = SqlText ''wheel_created'' then 1 else 0),
                   ue_total_time_spent = 0,
                   ue_engagement_score =
                     (case prior of Some r \<Rightarrow> ue_engagement_score r | None \<Rightarrow> 0) + 1,
                   ue_created_at = env_current_timestamp e,
                   ue_updated_at = env_current_timestamp e\<rparr>]\<rparr>))))))"

text \<open>
  The \<open>try\<close> block of \<open>_update_metrics\<close> up to its \<open>commit\<close>: \<open>Inl\<close> is the exception
  that leaves it. \<open>event_type == 'wheel_spin'\<close> holds of that string alone, and
  \<open>wheel_id\<close>, \<open>winner\<close>, \<open>user_id\<close> and \<open>session_id\<close> are tested as conditions.
\<close>

definition update_metrics_try ::
  "env \<Rightarrow> database \<Rightarrow> py_value \<Rightarrow> py_value \<Rightarrow> py_value \<Rightarrow> py_value \<Rightarrow> py_value \<Rightarrow>
   py_exception + database" where
  "update_metrics_try e db event_type event_data wheel_id user_id session_id =
     (case env_metrics_fault e Connect of
        Some ex \<Rightarrow> Inl ex
      | None \<Rightarrow>
     (case
        (if event_type = PStr ''wheel_spin'' \<and> py_truthy wheel_id
         then (case upsert_wheel_metrics e db wheel_id event_data of
                 Inl ex \<Rightarrow> Inl ex
               | Inr db1 \<Rightarrow>
                   (case event_data_get event_data ''winner'' PNone of
                      Inl ex \<Rightarrow> Inl ex
                    | Inr winner \<Rightarrow>
                        if py_truthy winner then upsert_winner e db1 wheel_id winner
                        else Inr db1))
         else Inr db) of
        Inl ex \<Rightarrow> Inl ex
      | Inr db2 \<Rightarrow>
     (case
        (if py_truthy user_id \<and> py_truthy session_id
         then upsert_engagement e db2 event_type user_id session_id
         else Inr db2) of
        Inl ex \<Rightarrow> Inl ex
      | Inr db3 \<Rightarrow>
     (case env_metrics_fault e Commit of
        Some ex \<Rightarrow> Inl ex
      | None \<Rightarrow> Inr db3))))"

datatype log_entry = ErrorRecordingEvent py_exception | ErrorUpdatingMetrics py_exception

text \<open>
  \<open>_update_metrics\<close>: an exception is logged and swallowed; the connection is dropped
  without a commit, so none of the statements of the call takes effect.
\<close>

definition update_metrics ::
  "env \<Rightarrow> database \<Rightarrow> py_value \<Rightarrow> py_value \<Rightarrow> py_value \<Rightarrow> py_value \<Rightarrow> py_value \<Rightarrow>
   log_entry list \<times> database" where
  "update_metrics e db event_type event_data wheel_id user_id session_id =
     (case update_metrics_try e db event_type event_data wheel_id user_id session_id of
        Inl ex \<Rightarrow> ([ErrorUpdatingMetrics ex], db)
      | Inr db' \<Rightarrow> ([], db'))"

subsection \<open>Recording an event\<close>

text \<open>
  \<open>event_row\<close> is the row of the \<open>INSERT INTO analytics_events\<close>, from the values as
  bound; the hash is taken of the event type as the f-string prints it. Strings hold code
  points below 256, which UTF-8 always encodes.
\<close>

definition event_row ::
  "env \<Rightarrow> py_value \<Rightarrow> string \<Rightarrow> sql_value \<Rightarrow> sql_value \<Rightarrow> sql_value \<Rightarrow> sql_value \<Rightarrow>
   string option \<Rightarrow> string option \<Rightarrow> analytics_event" where
  "event_row e event_type event_data_json type_value wheel user session ip_address user_agent =
     \<lparr>ev_event_type = text_affinity type_value, ev_event_data = event_data_json,
      ev_wheel_id = text_affinity wheel, ev_user_id = text_affinity user,
      ev_session_id = text_affinity session,
      ev_timestamp = env_now e, ev_ip_address = ip_address, ev_user_agent = user_agent,
      ev_data_hash =
        env_sha256_hex e (utf8_encode (py_str event_type @ event_data_json @ env_now e)),
      ev_created_at = env_current_timestamp e\<rparr>"

definition insert_event :: "database \<Rightarrow> analytics_event \<Rightarrow> database" where
  "insert_event db row = db\<lparr>analytics_events := analytics_events db @ [row]\<rparr>"

text \<open>
  The \<open>try\<close> block of \<open>record_event\<close> up to its \<open>commit\<close>: the connection is opened,
  the payload is serialised, the parameters are bound in the order of the \<open>?\<close>
  (\<open>event_type\<close>, \<open>wheel_id\<close>, \<open>user_id\<close>, \<open>session_id\<close>; the others are strings or
  \<open>None\<close>), \<open>event_type\<close> is a \<open>NOT NULL\<close> column, and the row is committed.
\<close>

definition record_event_try ::
  "env \<Rightarrow> database \<Rightarrow> py_value \<Rightarrow> py_value \<Rightarrow> py_value \<Rightarrow> py_value \<Rightarrow> py_value \<Rightarrow>
   string option \<Rightarrow> string option \<Rightarrow> py_exception + database" where
  "record_event_try e db event_type event_data wheel_id user_id session_id ip_address user_agent =
     (case env_record_fault e Connect of
        Some ex \<Rightarrow> Inl ex
      | None \<Rightarrow>
     (case json_dumps event_data of
        None \<Rightarrow> Inl NotJsonSerializable
      | Some event_data_json \<Rightarrow>
     (case bind_param event_type of
        Inl ex \<Rightarrow> Inl ex
      | Inr type_value \<Rightarrow>
     (case bind_param wheel_id of
        Inl ex \<Rightarrow> Inl ex
      | Inr wheel \<Rightarrow>
     (case bind_param user_id of
        Inl ex \<Rightarrow> Inl ex
      | Inr user \<Rightarrow>
     (case bind_param session_id of
        Inl ex \<Rightarrow> Inl ex
      | Inr session \<Rightarrow>
         if type_value = SqlNull then Inl NotNullConstraint
         else
     (case env_record_fault e (Execute 1) of
        Some ex \<Rightarrow> Inl ex
      | None \<Rightarrow>
     (case env_record_fault e Commit of
        Some ex \<Rightarrow> Inl ex
      | None \<Rightarrow>
          Inr (insert_event db
                 (event_row e event_type event_data_json type_value wheel user session
                    ip_address user_agent))))))))))"

text \<open>
  \<open>record_event\<close> returns its boolean, the errors it logged and the database it leaves.
  An exception of the \<open>try\<close> block is logged and gives \<open>False\<close>, with nothing
  committed. Otherwise the metrics are updated, which never raises, and the result is
  \<open>True\<close>.
\<close>

definition record_event ::
  "env \<Rightarrow> database \<Rightarrow> py_value \<Rightarrow> py_value \<Rightarrow> py_value \<Rightarrow> py_value \<Rightarrow> py_value \<Rightarrow>
   string option \<Rightarrow> string option \<Rightarrow> bool \<times> log_entry list \<times> database" where
  "record_event e db event_type event_data wheel_id user_id session_id ip_address user_agent =
     (case record_event_try e db event_type event_data wheel_id user_id session_id
             ip_address user_agent of
        Inl ex \<Rightarrow> (False, [ErrorRecordingEvent ex], db)
      | Inr db1 \<Rightarrow>
          (case update_metrics e db1 event_type event_data wheel_id user_id session_id of
             (logged, db2) \<Rightarrow> (True, logged, db2)))"

text \<open>
  A call succeeded when it returned true and logged no error; \<open>database_after\<close> is the
  database it leaves.
\<close>

definition succeeded :: "bool \<times> log_entry list \<times> database \<Rightarrow> bool" where
  "succeeded r = (fst r \<and> fst (snd r) = [])"

definition database_after :: "bool \<times> log_entry list \<times> database \<Rightarrow> database" where
  "database_after r = snd (snd r)"

subsection \<open>Reading the analytics of a wheel\<close>

text \<open>
  \<open>timedelta(days=days)\<close> and \<open>end_date - timedelta\<close>, on day ordinals: \<open>Inl\<close> is the
  text of the \<open>OverflowError\<close> CPython raises.
\<close>

definition timedelta_days :: "int \<Rightarrow> string + int" where
  "timedelta_days days =
     (if days < - 2147483648 \<or> 2147483647 < days
      then Inl ''Python int too large to convert to C int''
      else if days < - 999999999 \<or> 999999999 < days
      then Inl (''days='' @ str_int days @ ''; must have magnitude <= 999999999'')
      else Inr days)"

definition date_minus :: "int \<Rightarrow> int \<Rightarrow> string + int" where
  "date_minus today delta =
     (if 1 \<le> today - delta \<and> today - delta \<le> 3652059 then Inr (today - delta)
      else Inl ''date value out of range'')"

text \<open>
  The report of \<open>get_wheel_analytics\<close>. Its \<open>daily_activity\<close> and \<open>recent_spins\<close>
  lists, two more read-only queries over the event log, are not part of the model.
\<close>

record wheel_report =
  rp_wheel_id :: string
  rp_total_spins :: int
  rp_unique_users :: int
  rp_total_entries :: sql_value
  rp_created_at :: string
  rp_updated_at :: string
  rp_winner_distribution :: "(sql_value \<times> int \<times> string) list"
  rp_analysis_period :: string
  rp_generated_at :: string

datatype analytics_result = ErrorPayload string | Report wheel_report

text \<open>
  \<open>SELECT winner_name, frequency_count, last_won FROM winner_frequency WHERE
  wheel_id = ? ORDER BY frequency_count DESC LIMIT 20\<close>; rows of equal count are kept
  in table order.
\<close>

definition wheel_winners :: "database \<Rightarrow> sql_value \<Rightarrow> winner_frequency_row list" where
  "wheel_winners db wheel = filter (\<lambda>r. sql_eq (wf_wheel_id r) wheel) (winner_frequency db)"

definition winner_distribution_query ::
  "database \<Rightarrow> sql_value \<Rightarrow> (sql_value \<times> int \<times> string) list" where
  "winner_distribution_query db wheel =
     map (\<lambda>r. (wf_winner_name r, wf_frequency_count r, wf_last_won r))
       (take 20 (sort_key (\<lambda>r. - wf_frequency_count r) (wheel_winners db wheel)))"

text \<open>
  \<open>get_wheel_analytics\<close> returns its payload and the database it leaves. The date
  range is computed before the metrics row is looked up; every exception becomes an
  error payload. The wheel id is the string of the request path.
\<close>

definition get_wheel_analytics ::
  "env \<Rightarrow> database \<Rightarrow> string \<Rightarrow> int \<Rightarrow> analytics_result \<times> database" where
  "get_wheel_analytics e db wheel_id days =
     (case timedelta_days days of
        Inl msg \<Rightarrow> (ErrorPayload msg, db)
      | Inr delta \<Rightarrow>
         (case date_minus (env_today e) delta of
            Inl msg \<Rightarrow> (ErrorPayload msg, db)
          | Inr start_date \<Rightarrow>
             (case find_wheel_metrics db (SqlText wheel_id) of
                None \<Rightarrow> (ErrorPayload ''Wheel not found'', db)
              | Some m \<Rightarrow>
                  (Report \<lparr>rp_wheel_id = wheel_id,
                           rp_total_spins = wm_total_spins m,
                           rp_unique_users = wm_unique_users m,
                           rp_total_entries = wm_total_entries m,
                           rp_created_at = wm_created_at m,
                           rp_updated_at = wm_updated_at m,
                           rp_winner_distribution = winner_distribution_query db (SqlText wheel_id),
                           rp_analysis_period = str_int days @ '' days'',
                           rp_generated_at = env_now e\<rparr>, db))))"

subsection \<open>Checking a hash\<close>


subsection \<open>Values for the examples\<close>

text \<open>
  The database right after \<open>_initialize_analytics_tables\<close> ran on a new file, and one
  reading of the outside world (the hash and the text conversion stand for any
  function; the day is 4 November 2026; SQLite raises no error of its own).
\<close>

definition empty_database :: database where
  "empty_database =
     \<lparr>analytics_events = [], wheel_metrics = [], winner_frequency = [], user_engagement = []\<rparr>"

definition example_env :: env where
  "example_env =
     \<lparr>env_sha256_hex = id, env_numeric_of_text = SqlText,
      env_now = ''2026-11-04T02:00:00'', env_current_timestamp = ''2026-11-04 02:00:00'',
      env_today = 739924,
      env_record_fault = (\<lambda>step. None), env_metrics_fault = (\<lambda>step. None)\<rparr>"

text \<open>
  Three spins of the wheel \<open>w1\<close> on the empty database, by three users, each with the
  payload \<open>{winner: 'Alice', total_entries: 5}\<close>.
\<close>

definition first_spin :: "bool \<times> log_entry list \<times> database" where
  "first_spin =
     record_event example_env empty_database (PStr ''wheel_spin'')
       (PDict [(''winner'', PStr ''Alice''), (''total_entries'', PInt 5)])
       (PStr ''w1'') (PStr ''u1'') PNone None None"

definition second_spin :: "bool \<times> log_entry list \<times> database" where
  "second_spin =
     record_event example_env (database_after first_spin) (PStr ''wheel_spin'')
       (PDict [(''winner'', PStr ''Alice''), (''total_entries'', PInt 5)])
       (PStr ''w1'') (PStr ''u2'') PNone None None"

definition third_spin :: "bool \<times> log_entry list \<times> database" where
  "third_spin =
     record_event example_env (database_after second_spin) (PStr ''wheel_spin'')
       (PDict [(''winner'', PStr ''Alice''), (''total_entries'', PInt 5)])
       (PStr ''w1'') (PStr ''u3'') PNone None None"

section \<open>Facts about the string functions\<close>

lemma py_in_iff: "py_in sub s \<longleftrightarrow> (\<exists>u v. s = u @ sub @ v)"
proof (induction s)
  case Nil
  then show ?case by auto
next
  case (Cons c cs)
  show ?case
  proof
    assume "py_in sub (c # cs)"
    then consider "startswith (c # cs) sub" | "py_in sub cs" by auto
    then show "\<exists>u v. c # cs = u @ sub @ v"
    proof cases
      case 1
      then have "c # cs = [] @ sub @ drop (length sub) (c # cs)"
        unfolding startswith_def by (metis append_Nil append_take_drop_id)
      then show ?thesis by blast
    next
      case 2
      then obtain u v where "cs = u @ sub @ v" using Cons.IH by auto
      then have "c # cs = (c # u) @ sub @ v" by simp
      then show ?thesis by blast
    qed
  next
    assume "\<exists>u v. c # cs = u @ sub @ v"
    then obtain u v where uv: "c # cs = u @ sub @ v" by auto
    show "py_in sub (c # cs)"
    proof (cases u)
      case Nil
      then have "startswith (c # cs) sub" using uv unfolding startswith_def by simp
      then show ?thesis by simp
    next
      case (Cons a u')
      then have "cs = u' @ sub @ v" using uv by simp
      then have "py_in sub cs" using Cons.IH by auto
      then show ?thesis by simp
    qed
  qed
qed

lemma find_None_list_ex: "find P xs = None \<longleftrightarrow> \<not> list_ex P xs"
  by (auto simp: find_None_iff list_ex_iff)

section \<open>The secure CSV validator\<close>

subsection \<open>The suspicion heuristic of the XSS check\<close>

lemma suspicious_count_card:
  "length (filter (\<lambda>char. char \<in> set cell) suspicious_chars) =
   card (set cell \<inter> set suspicious_chars)"
proof -
  have d: "distinct suspicious_chars" by (simp add: suspicious_chars_def)
  have "{x. x \<in> set cell} \<inter> set suspicious_chars = set cell \<inter> set suspicious_chars"
    by auto
  then show ?thesis
    using distinct_length_filter [OF d, of "\<lambda>char. char \<in> set cell"] by simp
qed

text \<open>
  Claim C2, as the code has it. For a cell that matches the XSS pattern set neither
  directly nor after HTML-entity decoding, \<open>_check_xss_payload\<close> returns the tag
  \<open>suspicious_character_sequence\<close> if and only if more than three of the seven
  characters occur in the cell: each character counts once, however often it occurs.
\<close>

theorem check_xss_payload_suspicious:
  assumes "\<not> re_search xss_regex cell"
    and "\<not> re_search xss_regex (html_unescape charref_sub cell)"
  shows "check_xss_payload charref_sub cell = Some ''suspicious_character_sequence''
         \<longleftrightarrow> 3 < card (set cell \<inter> set suspicious_chars)"
proof (cases "cell = []")
  case True
  then show ?thesis by (simp add: check_xss_payload_def)
next
  case False
  then show ?thesis
    using assms by (simp add: check_xss_payload_def Let_def suspicious_count_card)
qed

text \<open>
  The cell \<open>>"'%\<close> holds four of the seven characters, matches no pattern and is
  flagged.
\<close>

theorem check_xss_payload_suspicious_witness:
  "\<not> re_search xss_regex [CHR ''>'', CHR 0x22, CHR 0x27, CHR ''%'']
   \<and> \<not> re_search xss_regex (html_unescape id [CHR ''>'', CHR 0x22, CHR 0x27, CHR ''%''])
   \<and> check_xss_payload id [CHR ''>'', CHR 0x22, CHR 0x27, CHR ''%''] =
       Some ''suspicious_character_sequence''
   \<and> 3 < card (set [CHR ''>'', CHR 0x22, CHR 0x27, CHR ''%''] \<inter> set suspicious_chars)"
proof -
  have a: "\<not> re_search xss_regex [CHR ''>'', CHR 0x22, CHR 0x27, CHR ''%'']"
    by code_simp
  have b: "\<not> re_search xss_regex (html_unescape id [CHR ''>'', CHR 0x22, CHR 0x27, CHR ''%''])"
    by code_simp
  have c: "3 < card (set [CHR ''>'', CHR 0x22, CHR 0x27, CHR ''%''] \<inter> set suspicious_chars)"
    by code_simp
  show ?thesis
    using a b c check_xss_payload_suspicious [OF a b] by simp
qed

text \<open>
  Claim C2 as stated fails: the cell \<open>%%%%\<close> holds a suspicious character at four
  positions and matches no pattern, yet it is not flagged.
\<close>

theorem suspicious_occurrences_counterexample:
  "\<not> re_search xss_regex ''%%%%''
   \<and> \<not> re_search xss_regex (html_unescape id ''%%%%'')
   \<and> 3 < spec_suspicious_occurrences ''%%%%''
   \<and> check_xss_payload id ''%%%%'' = None"
  by code_simp

subsection \<open>CSV injection\<close>

text \<open>
  Claim C4, as the code has it. The cells \<open>=1+1\<close>, \<open>+CMD\<close> and \<open>@SUM(A1:A2)\<close> get a
  \<open>dangerous_prefix_\<close> tag. A cell that contains \<open>eval\<close> in any case always gets some
  tag; the tag is \<open>dangerous_function_eval\<close> when the trimmed cell starts with no
  dangerous prefix and the cell contains none of the keywords that stand before \<open>eval\<close>
  in the denylist, since the first match wins.
\<close>

theorem check_csv_injection_tags:
  "check_csv_injection ''=1+1'' = Some ''dangerous_prefix_=''
   \<and> check_csv_injection ''+CMD'' = Some ''dangerous_prefix_+''
   \<and> check_csv_injection ''@SUM(A1:A2)'' = Some ''dangerous_prefix_@''
   \<and> (py_in ''eval'' (py_lower cell) \<longrightarrow> check_csv_injection cell \<noteq> None)
   \<and> (py_in ''eval'' (py_lower cell)
        \<and> \<not> list_ex (\<lambda>prefix. startswith (py_strip cell) prefix) DANGEROUS_PREFIXES
        \<and> \<not> list_ex (\<lambda>func. py_in func (py_lower cell))
               [''cmd'', ''exec'', ''system'', ''shell'', ''powershell'', ''bash'']
      \<longrightarrow> check_csv_injection cell = Some ''dangerous_function_eval'')"
proof -
  have a: "check_csv_injection ''=1+1'' = Some ''dangerous_prefix_=''" by code_simp
  have b: "check_csv_injection ''+CMD'' = Some ''dangerous_prefix_+''" by code_simp
  have c: "check_csv_injection ''@SUM(A1:A2)'' = Some ''dangerous_prefix_@''" by code_simp
  have ne: "cell \<noteq> []" if "py_in ''eval'' (py_lower cell)"
    using that by (auto simp: py_lower_def)
  have d: "check_csv_injection cell \<noteq> None" if h: "py_in ''eval'' (py_lower cell)"
  proof -
    have "find (\<lambda>func. py_in func (py_lower cell)) DANGEROUS_FUNCTIONS \<noteq> None"
      using h by (simp add: find_None_iff DANGEROUS_FUNCTIONS_def)
    then show ?thesis
      using ne [OF h] by (auto simp: check_csv_injection_def split: option.splits)
  qed
  have e: "check_csv_injection cell = Some ''dangerous_function_eval''"
    if h: "py_in ''eval'' (py_lower cell)"
      and p: "\<not> list_ex (\<lambda>prefix. startswith (py_strip cell) prefix) DANGEROUS_PREFIXES"
      and f: "\<not> list_ex (\<lambda>func. py_in func (py_lower cell))
               [''cmd'', ''exec'', ''system'', ''shell'', ''powershell'', ''bash'']"
  proof -
    have p': "find (\<lambda>prefix. startswith (py_strip cell) prefix) DANGEROUS_PREFIXES = None"
      using p by (simp add: find_None_list_ex)
    have f': "find (\<lambda>func. py_in func (py_lower cell)) DANGEROUS_FUNCTIONS = Some ''eval''"
      using f h by (simp add: DANGEROUS_FUNCTIONS_def)
    show ?thesis
      using ne [OF h] by (simp add: check_csv_injection_def p' f')
  qed
  show ?thesis using a b c d e by blast
qed

theorem check_csv_injection_tags_witness:
  "py_in ''eval'' (py_lower ''my EVAL here'')
   \<and> \<not> list_ex (\<lambda>prefix. startswith (py_strip ''my EVAL here'') prefix) DANGEROUS_PREFIXES
   \<and> \<not> list_ex (\<lambda>func. py_in func (py_lower ''my EVAL here''))
          [''cmd'', ''exec'', ''system'', ''shell'', ''powershell'', ''bash'']
   \<and> check_csv_injection ''my EVAL here'' \<noteq> None
   \<and> check_csv_injection ''my EVAL here'' = Some ''dangerous_function_eval''"
proof -
  have h: "py_in ''eval'' (py_lower ''my EVAL here'')" by code_simp
  have p: "\<not> list_ex (\<lambda>prefix. startswith (py_strip ''my EVAL here'') prefix) DANGEROUS_PREFIXES"
    by code_simp
  have f: "\<not> list_ex (\<lambda>func. py_in func (py_lower ''my EVAL here''))
          [''cmd'', ''exec'', ''system'', ''shell'', ''powershell'', ''bash'']"
    by code_simp
  show ?thesis
    using h p f check_csv_injection_tags [of "''my EVAL here''"] by blast
qed

text \<open>
  Claim C4 as stated fails: the cell \<open>=eval(1)\<close> contains \<open>eval\<close> and is reported
  with the prefix tag, which is checked first, not with \<open>dangerous_function_eval\<close>.
\<close>

theorem eval_first_match_counterexample:
  "py_in ''eval'' (py_lower ''=eval(1)'')
   \<and> check_csv_injection ''=eval(1)'' = Some ''dangerous_prefix_=''"
  by code_simp

subsection \<open>A valid result carries no risk\<close>

text \<open>
  Claim C6. Whenever \<open>validate_file_security\<close> returns a result with \<open>valid\<close> true,
  the result has neither a \<open>security_risk\<close> nor \<open>security_issues\<close>.
\<close>

theorem validate_file_security_valid_clean:
  "valid (validate_file_security max_file_size sha256_hex charref_sub parsed file_content filename)
   \<Longrightarrow> security_risk (validate_file_security max_file_size sha256_hex charref_sub parsed
                       file_content filename) = None
     \<and> security_issues (validate_file_security max_file_size sha256_hex charref_sub parsed
                       file_content filename) = None"
  unfolding validate_file_security_def Let_def
  by (simp add: rejected_def split: if_splits)

theorem validate_file_security_valid_clean_witness:
  "valid (validate_file_security 100 id id (Inr [[''name''], [''Alice'']])
            ''name\<newline>Alice'' ''wheel.CSV'')
   \<and> security_risk (validate_file_security 100 id id (Inr [[''name''], [''Alice'']])
            ''name\<newline>Alice'' ''wheel.CSV'') = None
   \<and> security_issues (validate_file_security 100 id id (Inr [[''name''], [''Alice'']])
            ''name\<newline>Alice'' ''wheel.CSV'') = None"
proof -
  have v: "valid (validate_file_security 100 id id (Inr [[''name''], [''Alice'']])
             ''name\<newline>Alice'' ''wheel.CSV'')"
    by code_simp
  show ?thesis
    using v validate_file_security_valid_clean [OF v] by simp
qed

section \<open>The CSV service\<close>

subsection \<open>The integrity check of a list against itself\<close>

text \<open>
  Claim C9. For every non-empty list \<open>X\<close>, \<open>validate_data_integrity(X, X)\<close> reports
  \<open>passed\<close> true, an \<open>integrity_score\<close> of one and no missing and no extra entries,
  whatever the order and the duplicates of \<open>X\<close>.
\<close>

theorem validate_data_integrity_roundtrip:
  "X \<noteq> [] \<Longrightarrow>
   validate_data_integrity X X =
     \<lparr>passed = True, original_count = length X, processed_count = length X,
      missing_entries = {}, extra_entries = {}, integrity_score = 1\<rparr>"
proof -
  assume ne: "X \<noteq> []"
  then have "card (set X) \<noteq> 0" by simp
  then have "(of_nat (card (set X)) :: rat) / of_nat (card (set X)) = 1" by simp
  then show ?thesis
    using ne by (simp add: validate_data_integrity_def Let_def)
qed

theorem validate_data_integrity_roundtrip_witness:
  "[''b'', ''a'', ''b''] \<noteq> []
   \<and> validate_data_integrity [''b'', ''a'', ''b''] [''b'', ''a'', ''b''] =
     \<lparr>passed = True, original_count = 3, processed_count = 3,
      missing_entries = {}, extra_entries = {}, integrity_score = 1\<rparr>"
  using validate_data_integrity_roundtrip [of "[''b'', ''a'', ''b'']"] by simp

subsection \<open>Blank rows of an uploaded file\<close>

lemma validate_rows_append:
  "validate_rows headers i (xs @ ys) acc =
   validate_rows headers (i + length xs) ys (validate_rows headers i xs acc)"
proof (induction xs arbitrary: i acc)
  case Nil
  then show ?case by simp
next
  case (Cons row xs)
  obtain es ws where acc: "acc = (es, ws)" by (cases acc)
  show ?case
    unfolding acc by (simp add: Cons.IH Let_def)
qed

lemma validate_rows_blank:
  "blank_row row \<Longrightarrow>
   validate_rows headers i (row # rest) acc = validate_rows headers (i + 1) rest acc"
  by (cases acc) simp

text \<open>
  Claim C10. A data row whose cells are all blank after stripping is skipped: the result
  of \<open>validate_csv_file\<close> is built from the rows before it, numbered from 2, and the
  rows after it, numbered as if the blank row were counted, so the blank row gives no
  entry and no warning; \<open>total_rows\<close> counts it with the other rows after the header.
\<close>

theorem validate_csv_file_blank_row:
  assumes "blank_row row"
    and "length (utf8_encode file_content) \<le> csv_max_file_size"
    and "list_ex (\<lambda>header. header \<in> set (map (\<lambda>h. py_lower (py_strip h)) hdr))
           required_headers"
  shows "validate_csv_file (Inr (hdr # pre @ row # post)) file_content =
     (case validate_rows (map (\<lambda>h. py_lower (py_strip h)) hdr) (length pre + 3) post
             (validate_rows (map (\<lambda>h. py_lower (py_strip h)) hdr) 2 pre ([], [])) of
        (valid_entries, errors) \<Rightarrow>
          if valid_entries = [] then csv_invalid ''No valid entries found in CSV''
          else \<lparr>csv_valid = True, csv_error = None, csv_entries = Some valid_entries,
                csv_total_rows = Some (length pre + 1 + length post),
                csv_valid_entries = Some (length valid_entries),
                csv_errors = Some errors\<rparr>)"
proof -
  let ?headers = "map (\<lambda>h. py_lower (py_strip h)) hdr"
  have "validate_rows ?headers 2 (pre @ row # post) ([], []) =
        validate_rows ?headers (2 + length pre) (row # post)
          (validate_rows ?headers 2 pre ([], []))"
    by (rule validate_rows_append)
  also have "\<dots> = validate_rows ?headers (2 + length pre + 1) post
                     (validate_rows ?headers 2 pre ([], []))"
    using assms(1) by (rule validate_rows_blank)
  also have "2 + length pre + 1 = length pre + 3"
    by simp
  finally have loop: "validate_rows ?headers 2 (pre @ row # post) ([], []) =
        validate_rows ?headers (length pre + 3) post (validate_rows ?headers 2 pre ([], []))" .
  have "validate_csv_file (Inr (hdr # pre @ row # post)) file_content =
     (case validate_rows ?headers 2 (pre @ row # post) ([], []) of
        (valid_entries, errors) \<Rightarrow>
          if valid_entries = [] then csv_invalid ''No valid entries found in CSV''
          else \<lparr>csv_valid = True, csv_error = None, csv_entries = Some valid_entries,
                csv_total_rows = Some (length pre + 1 + length post),
                csv_valid_entries = Some (length valid_entries),
                csv_errors = Some errors\<rparr>)"
    using assms(2,3) by (simp add: validate_csv_file_def Let_def split: prod.splits)
  then show ?thesis
    by (simp only: loop)
qed

text \<open>
  A file of a header and four rows, the second of them blank: two entries, one warning
  for row 4, the row after the blank one, and four rows in total.
\<close>

theorem validate_csv_file_blank_row_witness:
  "blank_row ['' '', []]
   \<and> length (utf8_encode ''name,n\<newline>Alice,1\<newline> ,\<newline>,2\<newline>Bob,3'') \<le> csv_max_file_size
   \<and> list_ex (\<lambda>header. header \<in> set (map (\<lambda>h. py_lower (py_strip h)) [''Name'', ''n'']))
        required_headers
   \<and> validate_csv_file
        (Inr ([''Name'', ''n''] # [[''Alice'', ''1'']] @ ['' '', []] # [[[], ''2''], [''Bob'', ''3'']]))
        ''name,n\<newline>Alice,1\<newline> ,\<newline>,2\<newline>Bob,3'' =
      \<lparr>csv_valid = True, csv_error = None, csv_entries = Some [''Alice'', ''Bob''],
       csv_total_rows = Some 4, csv_valid_entries = Some 2,
       csv_errors = Some [''Row 4: Missing entry name'']\<rparr>"
proof -
  have a: "blank_row ['' '', []]" by code_simp
  have b: "length (utf8_encode ''name,n\<newline>Alice,1\<newline> ,\<newline>,2\<newline>Bob,3'')
           \<le> csv_max_file_size"
    by (simp add: utf8_encode_def utf8_char_def csv_max_file_size_def)
  have c: "list_ex (\<lambda>header. header \<in> set (map (\<lambda>h. py_lower (py_strip h)) [''Name'', ''n'']))
             required_headers"
    by code_simp
  have d: "(case validate_rows (map (\<lambda>h. py_lower (py_strip h)) [''Name'', ''n''])
                  (length [[''Alice'', ''1'']] + 3) [[[], ''2''], [''Bob'', ''3'']]
             (validate_rows (map (\<lambda>h. py_lower (py_strip h)) [''Name'', ''n'']) 2
                [[''Alice'', ''1'']] ([], [])) of
        (valid_entries, errors) \<Rightarrow>
          if valid_entries = [] then csv_invalid ''No valid entries found in CSV''
          else \<lparr>csv_valid = True, csv_error = None, csv_entries = Some valid_entries,
                csv_total_rows =
                  Some (length [[''Alice'', ''1'']] + 1 + length [[[], ''2''], [''Bob'', ''3'']]),
                csv_valid_entries = Some (length valid_entries),
                csv_errors = Some errors\<rparr>) =
      \<lparr>csv_valid = True, csv_error = None, csv_entries = Some [''Alice'', ''Bob''],
       csv_total_rows = Some 4, csv_valid_entries = Some 2,
       csv_errors = Some [''Row 4: Missing entry name'']\<rparr>"
    by code_simp
  have e: "validate_csv_file
        (Inr ([''Name'', ''n''] # [[''Alice'', ''1'']] @ ['' '', []] # [[[], ''2''], [''Bob'', ''3'']]))
        ''name,n\<newline>Alice,1\<newline> ,\<newline>,2\<newline>Bob,3'' =
      \<lparr>csv_valid = True, csv_error = None, csv_entries = Some [''Alice'', ''Bob''],
       csv_total_rows = Some 4, csv_valid_entries = Some 2,
       csv_errors = Some [''Row 4: Missing entry name'']\<rparr>"
    by (rule trans [OF validate_csv_file_blank_row [OF a b c] d])
  show ?thesis
    by (intro conjI a b c e)
qed

section \<open>The analytics service\<close>

subsection \<open>Lists and lookups\<close>

lemma find_app:
  "find P (xs @ ys) = (case find P xs of None \<Rightarrow> find P ys | Some x \<Rightarrow> Some x)"
  by (induction xs) auto

lemma find_filter_not: "find P (filter (\<lambda>r. \<not> P r) xs) = None"
  by (induction xs) auto

lemma find_upsert: "find P (filter (\<lambda>r. \<not> P r) xs @ [x]) = (if P x then Some x else None)"
  by (simp add: find_app find_filter_not)

lemma find_conj_filter: "find (\<lambda>r. P r \<and> Q r) xs = find Q (filter P xs)"
  by (induction xs) auto

lemma filter_key_rest:
  "filter P (filter (\<lambda>r. \<not> (P r \<and> Q r)) xs) = filter (\<lambda>r. \<not> Q r) (filter P xs)"
  by (induction xs) auto

lemma sql_eq_text: "sql_eq a (SqlText s) = (a = SqlText s)"
  by (auto simp: sql_eq_def)

subsection \<open>The queries\<close>

text \<open>
  The count of distinct users is the number of non-null user ids that occur in the spin
  events of the wheel.
\<close>

lemma count_distinct_users_card:
  "count_distinct_users db wheel =
   int (card {uid. uid \<noteq> SqlNull \<and> (\<exists>ev \<in> set (analytics_events db).
          ev_event_type ev = SqlText ''wheel_spin'' \<and> sql_eq (ev_wheel_id ev) wheel \<and>
          ev_user_id ev = uid)})"
proof -
  have "length (remdups (spin_user_ids db wheel)) = card (set (spin_user_ids db wheel))"
    by (simp add: length_remdups_card_conv)
  also have "set (spin_user_ids db wheel) =
     {uid. uid \<noteq> SqlNull \<and> (\<exists>ev \<in> set (analytics_events db).
          ev_event_type ev = SqlText ''wheel_spin'' \<and> sql_eq (ev_wheel_id ev) wheel \<and>
          ev_user_id ev = uid)}"
    by (auto simp: spin_user_ids_def)
  finally show ?thesis
    by (simp add: count_distinct_users_def)
qed

lemma count_distinct_users_cong:
  "analytics_events db = analytics_events db' \<Longrightarrow>
   count_distinct_users db wheel = count_distinct_users db' wheel"
  by (simp add: count_distinct_users_def spin_user_ids_def)

lemma find_wheel_metrics_cong:
  "wheel_metrics db = wheel_metrics db' \<Longrightarrow> find_wheel_metrics db w = find_wheel_metrics db' w"
  by (simp add: find_wheel_metrics_def)

lemma find_winner_wheel_winners:
  "find_winner db w n = find (\<lambda>r. sql_eq (wf_winner_name r) n) (wheel_winners db w)"
  by (simp add: find_winner_def wheel_winners_def find_conj_filter)

subsection \<open>What each statement of the metrics update changes\<close>

lemma upsert_engagement_frame:
  assumes "upsert_engagement e db t u s = Inr db'"
  shows "analytics_events db' = analytics_events db"
    and "wheel_metrics db' = wheel_metrics db"
    and "winner_frequency db' = winner_frequency db"
  using assms
  by (auto simp: upsert_engagement_def Let_def split: sum.splits option.splits if_splits)

lemma upsert_winner_frame:
  assumes "upsert_winner e db w v = Inr db'"
  shows "analytics_events db' = analytics_events db"
    and "wheel_metrics db' = wheel_metrics db"
    and "user_engagement db' = user_engagement db"
  using assms by (auto simp: upsert_winner_def split: sum.splits option.splits if_splits)

lemma upsert_wheel_metrics_frame:
  assumes "upsert_wheel_metrics e db w d = Inr db'"
  shows "analytics_events db' = analytics_events db"
    and "winner_frequency db' = winner_frequency db"
    and "user_engagement db' = user_engagement db"
  using assms by (auto simp: upsert_wheel_metrics_def split: sum.splits option.splits if_splits)

lemma upsert_wheel_metrics_dict:
  assumes "upsert_wheel_metrics e db w event_data = Inr db'"
  shows "\<exists>d. event_data = PDict d"
  using assms by (cases event_data) (auto simp: upsert_wheel_metrics_def)

lemma upsert_wheel_metrics_row:
  assumes "upsert_wheel_metrics e db (PStr w) (PDict d) = Inr db'"
  shows "\<exists>title_value entries_value.
           bind_param (dict_get d ''wheel_title'' (PStr [])) = Inr title_value
         \<and> bind_param (dict_get d ''total_entries'' (PInt 0)) = Inr entries_value
         \<and> find_wheel_metrics db' (SqlText w) =
             Some \<lparr>wm_wheel_id = SqlText w,
                   wm_wheel_title = text_affinity title_value,
                   wm_total_spins =
                     (case find_wheel_metrics db (SqlText w) of
                        Some r \<Rightarrow> wm_total_spins r | None \<Rightarrow> 0) + 1,
                   wm_unique_users = count_distinct_users db (SqlText w),
                   wm_total_entries = integer_affinity (env_numeric_of_text e) entries_value,
                   wm_created_at = env_current_timestamp e,
                   wm_updated_at = env_current_timestamp e\<rparr>
         \<and> filter (\<lambda>r. wm_wheel_id r \<noteq> SqlText w) (wheel_metrics db') =
             filter (\<lambda>r. wm_wheel_id r \<noteq> SqlText w) (wheel_metrics db)
         \<and> length (filter (\<lambda>r. wm_wheel_id r = SqlText w) (wheel_metrics db')) = 1"
proof -
  obtain tv where tv: "bind_param (dict_get d ''wheel_title'' (PStr [])) = Inr tv"
    using assms by (auto simp: upsert_wheel_metrics_def split: sum.splits)
  obtain ev where ev: "bind_param (dict_get d ''total_entries'' (PInt 0)) = Inr ev"
    using assms tv by (auto simp: upsert_wheel_metrics_def split: sum.splits)
  have nf: "env_metrics_fault e (Execute 1) = None"
    using assms tv ev by (auto simp: upsert_wheel_metrics_def split: option.splits)
  define row where "row =
     \<lparr>wm_wheel_id = SqlText w, wm_wheel_title = text_affinity tv,
      wm_total_spins =
        (case find_wheel_metrics db (SqlText w) of Some r \<Rightarrow> wm_total_spins r | None \<Rightarrow> 0) + 1,
      wm_unique_users = count_distinct_users db (SqlText w),
      wm_total_entries = integer_affinity (env_numeric_of_text e) ev,
      wm_created_at = env_current_timestamp e,
      wm_updated_at = env_current_timestamp e\<rparr>"
  have db': "wheel_metrics db' = filter (\<lambda>r. wm_wheel_id r \<noteq> SqlText w) (wheel_metrics db) @ [row]"
    using assms tv ev nf by (auto simp: upsert_wheel_metrics_def row_def sql_eq_text)
  have w: "wm_wheel_id row = SqlText w" by (simp add: row_def)
  have f: "find_wheel_metrics db' (SqlText w) = Some row"
    unfolding find_wheel_metrics_def db' sql_eq_text
    using find_upsert [of "\<lambda>r. wm_wheel_id r = SqlText w" "wheel_metrics db" row] w by simp
  have g: "filter (\<lambda>r. wm_wheel_id r \<noteq> SqlText w) (wheel_metrics db') =
           filter (\<lambda>r. wm_wheel_id r \<noteq> SqlText w) (wheel_metrics db)"
    unfolding db' using w by simp
  have "filter (\<lambda>r. wm_wheel_id r = SqlText w)
          (filter (\<lambda>r. wm_wheel_id r \<noteq> SqlText w) (wheel_metrics db)) = []"
    by (simp add: filter_empty_conv)
  then have h: "length (filter (\<lambda>r. wm_wheel_id r = SqlText w) (wheel_metrics db')) = 1"
    unfolding db' using w by simp
  show ?thesis
    using tv ev f g h unfolding row_def by blast
qed

lemma upsert_winner_wheel_winners:
  assumes "upsert_winner e db (PStr w) (PStr n) = Inr db'"
  shows "wheel_winners db' (SqlText w) =
              filter (\<lambda>r. wf_winner_name r \<noteq> SqlText n) (wheel_winners db (SqlText w)) @
              [\<lparr>wf_wheel_id = SqlText w, wf_winner_name = SqlText n,
                wf_frequency_count =
                  (case find (\<lambda>r. wf_winner_name r = SqlText n) (wheel_winners db (SqlText w)) of
                     Some r \<Rightarrow> wf_frequency_count r | None \<Rightarrow> 0) + 1,
                wf_last_won = env_current_timestamp e,
                wf_created_at = env_current_timestamp e,
                wf_updated_at = env_current_timestamp e\<rparr>]"
proof -
  have nf: "env_metrics_fault e (Execute 2) = None"
    using assms by (auto simp: upsert_winner_def split: option.splits)
  have "filter (\<lambda>r. wf_wheel_id r = SqlText w)
          (filter (\<lambda>r. \<not> (wf_wheel_id r = SqlText w \<and> wf_winner_name r = SqlText n)) (winner_frequency db))
        = filter (\<lambda>r. wf_winner_name r \<noteq> SqlText n) (filter (\<lambda>r. wf_wheel_id r = SqlText w) (winner_frequency db))"
    by (rule filter_key_rest)
  then show ?thesis
    using assms nf
    by (auto simp: upsert_winner_def wheel_winners_def sql_eq_text
          find_winner_wheel_winners [unfolded wheel_winners_def])
qed

lemma insert_event_simps:
  "analytics_events (insert_event db row) = analytics_events db @ [row]"
  "wheel_metrics (insert_event db row) = wheel_metrics db"
  "winner_frequency (insert_event db row) = winner_frequency db"
  "user_engagement (insert_event db row) = user_engagement db"
  by (simp_all add: insert_event_def)

text \<open>
  A spin for a wheel whose metrics update goes through: the row of the wheel comes from
  the first statement, the event log is not touched.
\<close>

lemma update_metrics_try_spin:
  assumes "update_metrics_try e db (PStr ''wheel_spin'') d (PStr w) u s = Inr db'" and "w \<noteq> []"
  shows "\<exists>db1. upsert_wheel_metrics e db (PStr w) d = Inr db1
           \<and> wheel_metrics db' = wheel_metrics db1
           \<and> analytics_events db' = analytics_events db"
proof -
  have c: "env_metrics_fault e Connect = None"
    using assms by (auto simp: update_metrics_try_def split: option.splits)
  obtain db1 where db1: "upsert_wheel_metrics e db (PStr w) d = Inr db1"
    using assms c by (auto simp: update_metrics_try_def split: sum.splits)
  obtain winner where winner: "event_data_get d ''winner'' PNone = Inr winner"
    using assms c db1 by (auto simp: update_metrics_try_def split: sum.splits)
  obtain db2 where db2:
    "(if py_truthy winner then upsert_winner e db1 (PStr w) winner else Inr db1) = Inr db2"
    using assms c db1 winner by (auto simp: update_metrics_try_def split: sum.splits if_splits)
  have w2: "wheel_metrics db2 = wheel_metrics db1" and e2: "analytics_events db2 = analytics_events db1"
    using db2 upsert_winner_frame [of e db1 "PStr w" winner db2] by (auto split: if_splits)
  have db3: "(if py_truthy u \<and> py_truthy s
              then upsert_engagement e db2 (PStr ''wheel_spin'') u s else Inr db2) = Inr db'"
    using assms c db1 winner db2
    by (auto simp: update_metrics_try_def split: sum.splits if_splits option.splits)
  have "wheel_metrics db' = wheel_metrics db2" and "analytics_events db' = analytics_events db2"
    using db3 upsert_engagement_frame [of e db2 "PStr ''wheel_spin''" u s db']
    by (auto split: if_splits)
  then show ?thesis
    using db1 w2 e2 upsert_wheel_metrics_frame(1) [OF db1] by auto
qed

lemma succeeded_iff:
  "succeeded r \<longleftrightarrow> r = (True, [], database_after r)"
  by (cases r) (auto simp: succeeded_def database_after_def)

lemma record_event_success:
  assumes "record_event e db t d w u s ip ua = (True, [], db')"
  shows "\<exists>db1. record_event_try e db t d w u s ip ua = Inr db1
           \<and> update_metrics_try e db1 t d w u s = Inr db'"
  using assms
  by (auto simp: record_event_def update_metrics_def split: sum.splits prod.splits)

lemma record_event_try_row:
  assumes "record_event_try e db t d w u s ip ua = Inr db1"
  shows "\<exists>j tv wv uv sv.
           json_dumps d = Some j \<and> bind_param t = Inr tv \<and> bind_param w = Inr wv
         \<and> bind_param u = Inr uv \<and> bind_param s = Inr sv \<and> tv \<noteq> SqlNull
         \<and> db1 = insert_event db (event_row e t j tv wv uv sv ip ua)"
  using assms
  by (auto simp: record_event_try_def simp del: json_dumps.simps
           split: option.splits sum.splits if_splits)

lemma record_spin_row:
  assumes ok: "record_event e db (PStr ''wheel_spin'') d (PStr w) u s ip ua = (True, [], db')"
    and w: "w \<noteq> []"
  shows "\<exists>j uv sv title_value entries_value kvs.
           d = PDict kvs
         \<and> json_dumps d = Some j \<and> bind_param u = Inr uv \<and> bind_param s = Inr sv
         \<and> analytics_events db' =
             analytics_events db @
             [event_row e (PStr ''wheel_spin'') j (SqlText ''wheel_spin'') (SqlText w) uv sv ip ua]
         \<and> bind_param (dict_get kvs ''wheel_title'' (PStr [])) = Inr title_value
         \<and> bind_param (dict_get kvs ''total_entries'' (PInt 0)) = Inr entries_value
         \<and> find_wheel_metrics db' (SqlText w) =
             Some \<lparr>wm_wheel_id = SqlText w,
                   wm_wheel_title = text_affinity title_value,
                   wm_total_spins =
                     (case find_wheel_metrics db (SqlText w) of
                        Some r \<Rightarrow> wm_total_spins r | None \<Rightarrow> 0) + 1,
                   wm_unique_users = count_distinct_users db' (SqlText w),
                   wm_total_entries = integer_affinity (env_numeric_of_text e) entries_value,
                   wm_created_at = env_current_timestamp e,
                   wm_updated_at = env_current_timestamp e\<rparr>
         \<and> length (filter (\<lambda>r. wm_wheel_id r = SqlText w) (wheel_metrics db')) = 1"
proof -
  obtain db0 where i: "record_event_try e db (PStr ''wheel_spin'') d (PStr w) u s ip ua = Inr db0"
    and t: "update_metrics_try e db0 (PStr ''wheel_spin'') d (PStr w) u s = Inr db'"
    using record_event_success [OF ok] by blast
  obtain j uv sv where j: "json_dumps d = Some j"
    and uv: "bind_param u = Inr uv" and sv: "bind_param s = Inr sv"
    and db0: "db0 = insert_event db
               (event_row e (PStr ''wheel_spin'') j (SqlText ''wheel_spin'') (SqlText w) uv sv ip ua)"
    using record_event_try_row [OF i] by auto
  obtain db1 where db1: "upsert_wheel_metrics e db0 (PStr w) d = Inr db1"
    and wm: "wheel_metrics db' = wheel_metrics db1"
    and ev: "analytics_events db' = analytics_events db0"
    using update_metrics_try_spin [OF t w] by blast
  obtain kvs where kvs: "d = PDict kvs"
    using upsert_wheel_metrics_dict [OF db1] by blast
  obtain tv en where tv: "bind_param (dict_get kvs ''wheel_title'' (PStr [])) = Inr tv"
    and en: "bind_param (dict_get kvs ''total_entries'' (PInt 0)) = Inr en"
    and row: "find_wheel_metrics db1 (SqlText w) =
             Some \<lparr>wm_wheel_id = SqlText w,
                   wm_wheel_title = text_affinity tv,
                   wm_total_spins =
                     (case find_wheel_metrics db0 (SqlText w) of
                        Some r \<Rightarrow> wm_total_spins r | None \<Rightarrow> 0) + 1,
                   wm_unique_users = count_distinct_users db0 (SqlText w),
                   wm_total_entries = integer_affinity (env_numeric_of_text e) en,
                   wm_created_at = env_current_timestamp e,
                   wm_updated_at = env_current_timestamp e\<rparr>"
    and one: "length (filter (\<lambda>r. wm_wheel_id r = SqlText w) (wheel_metrics db1)) = 1"
    using upsert_wheel_metrics_row [OF db1 [unfolded kvs]] by blast
  have a: "find_wheel_metrics db0 (SqlText w) = find_wheel_metrics db (SqlText w)"
    by (rule find_wheel_metrics_cong) (simp add: db0 insert_event_simps)
  have b: "count_distinct_users db0 (SqlText w) = count_distinct_users db' (SqlText w)"
    by (rule count_distinct_users_cong) (simp add: ev)
  have c: "find_wheel_metrics db' (SqlText w) = find_wheel_metrics db1 (SqlText w)"
    by (rule find_wheel_metrics_cong) (simp add: wm)
  have d: "analytics_events db' = analytics_events db @
             [event_row e (PStr ''wheel_spin'') j (SqlText ''wheel_spin'') (SqlText w) uv sv ip ua]"
    using ev by (simp add: db0 insert_event_simps)
  show ?thesis
    using kvs j uv sv d tv en row one a b c wm by auto
qed

subsection \<open>Spins and the metrics of a wheel\<close>

lemma spin_metrics_row:
  assumes w: "w \<noteq> []"
    and ok: "succeeded (record_event e db (PStr ''wheel_spin'') d (PStr w) u s ip ua)"
  shows "\<exists>m. find_wheel_metrics
                (database_after (record_event e db (PStr ''wheel_spin'') d (PStr w) u s ip ua))
                (SqlText w) = Some m
          \<and> length (filter (\<lambda>r. wm_wheel_id r = SqlText w)
               (wheel_metrics
                  (database_after (record_event e db (PStr ''wheel_spin'') d (PStr w) u s ip ua)))) = 1
          \<and> wm_total_spins m =
              (case find_wheel_metrics db (SqlText w) of Some r \<Rightarrow> wm_total_spins r | None \<Rightarrow> 0) + 1
          \<and> wm_unique_users m =
              int (card {uid. uid \<noteq> SqlNull \<and>
                    (\<exists>ev \<in> set (analytics_events
                        (database_after (record_event e db (PStr ''wheel_spin'') d (PStr w) u s ip ua))).
                       ev_event_type ev = SqlText ''wheel_spin'' \<and> ev_wheel_id ev = SqlText w \<and>
                       ev_user_id ev = uid)})"
proof -
  let ?db' = "database_after (record_event e db (PStr ''wheel_spin'') d (PStr w) u s ip ua)"
  have r: "record_event e db (PStr ''wheel_spin'') d (PStr w) u s ip ua = (True, [], ?db')"
    using ok by (simp add: succeeded_iff [symmetric])
  show ?thesis
    using record_spin_row [OF r w] by (auto simp: count_distinct_users_card sql_eq_text)
qed

text \<open>
  One spin with the payload \<open>{winner: 'Alice', total_entries: 5}\<close> and a user id, on
  a database that raises no error of its own, succeeds, adds the user to the spin events
  of the wheel and counts one more win for Alice.
\<close>

lemma json_dumps_alice:
  "json_dumps (PDict [(''winner'', PStr ''Alice''), (''total_entries'', PInt 5)]) \<noteq> None"
  by code_simp

lemma truthy_bound_not_null:
  assumes "py_truthy v" and "bind_param v = Inr x"
  shows "x \<noteq> SqlNull"
  using assms by (cases v) (auto split: if_splits)

lemma upsert_engagement_total:
  assumes "env_metrics_fault e (Execute 3) = None" and "\<not> isl (bind_param s)" and "py_truthy s"
    and "u \<noteq> []"
  shows "\<exists>db'. upsert_engagement e db (PStr t) (PStr u) s = Inr db'"
proof -
  obtain sv where sv: "bind_param s = Inr sv"
    using assms(2) by (cases "bind_param s") auto
  have "sv \<noteq> SqlNull"
    using truthy_bound_not_null [OF assms(3) sv] .
  then show ?thesis
    using assms(1) sv by (simp add: upsert_engagement_def Let_def)
qed

lemma spin_alice_step:
  assumes w: "w \<noteq> []"
    and nf: "env_record_fault e = (\<lambda>step. None)" "env_metrics_fault e = (\<lambda>step. None)"
    and s: "\<not> isl (bind_param s)"
    and r: "record_event e db (PStr ''wheel_spin'')
              (PDict [(''winner'', PStr ''Alice''), (''total_entries'', PInt 5)])
              (PStr w) (PStr uid) s ip ua = (ok, logged, db')"
  shows "ok \<and> logged = []
       \<and> spin_user_ids db' (SqlText w) = spin_user_ids db (SqlText w) @ [SqlText uid]
       \<and> (\<exists>m. find_wheel_metrics db' (SqlText w) = Some m
              \<and> wm_total_spins m =
                  (case find_wheel_metrics db (SqlText w) of
                     Some r \<Rightarrow> wm_total_spins r | None \<Rightarrow> 0) + 1
              \<and> wm_unique_users m = count_distinct_users db' (SqlText w)
              \<and> wm_total_entries m = SqlInt 5)
       \<and> wheel_winners db' (SqlText w) =
            filter (\<lambda>r. wf_winner_name r \<noteq> SqlText ''Alice'') (wheel_winners db (SqlText w)) @
            [\<lparr>wf_wheel_id = SqlText w, wf_winner_name = SqlText ''Alice'',
              wf_frequency_count =
                (case find (\<lambda>r. wf_winner_name r = SqlText ''Alice'') (wheel_winners db (SqlText w)) of
                   Some r \<Rightarrow> wf_frequency_count r | None \<Rightarrow> 0) + 1,
              wf_last_won = env_current_timestamp e,
              wf_created_at = env_current_timestamp e,
              wf_updated_at = env_current_timestamp e\<rparr>]"
proof -
  let ?d = "[(''winner'', PStr ''Alice''), (''total_entries'', PInt 5)]"
  let ?t = "PStr ''wheel_spin''"
  obtain j where j: "json_dumps (PDict ?d) = Some j"
    using json_dumps_alice by blast
  obtain sv where sv: "bind_param s = Inr sv"
    using s by (cases "bind_param s") auto
  let ?db0 = "insert_event db (event_row e ?t j (SqlText ''wheel_spin'') (SqlText w) (SqlText uid) sv ip ua)"
  have i: "record_event_try e db ?t (PDict ?d) (PStr w) (PStr uid) s ip ua = Inr ?db0"
    unfolding record_event_try_def j by (simp add: nf sv del: json_dumps.simps)
  have g1: "dict_get ?d ''wheel_title'' (PStr []) = PStr []"
    and g2: "dict_get ?d ''total_entries'' (PInt 0) = PInt 5"
    and g3: "dict_get ?d ''winner'' PNone = PStr ''Alice''"
    by (simp_all add: dict_get_def)
  obtain db1 where db1: "upsert_wheel_metrics e ?db0 (PStr w) (PDict ?d) = Inr db1"
    by (simp add: upsert_wheel_metrics_def g1 g2 nf)
  obtain db2 where db2: "upsert_winner e db1 (PStr w) (PStr ''Alice'') = Inr db2"
    by (simp add: upsert_winner_def nf)
  have "\<exists>db3. (if py_truthy (PStr uid) \<and> py_truthy s
       then upsert_engagement e db2 ?t (PStr uid) s else Inr db2) = Inr db3"
  proof (cases "py_truthy (PStr uid) \<and> py_truthy s")
    case True
    then show ?thesis
      using upsert_engagement_total [of e s uid db2 "''wheel_spin''"] s by (simp add: nf)
  next
    case False
    then show ?thesis by auto
  qed
  then obtain db3 where db3: "(if py_truthy (PStr uid) \<and> py_truthy s
       then upsert_engagement e db2 ?t (PStr uid) s else Inr db2) = Inr db3"
    by blast
  have t: "update_metrics_try e ?db0 ?t (PDict ?d) (PStr w) (PStr uid) s = Inr db3"
    using w db1 db2 db3 unfolding update_metrics_try_def by (simp add: g3 nf)
  have res: "record_event e db ?t (PDict ?d) (PStr w) (PStr uid) s ip ua = (True, [], db3)"
    unfolding record_event_def i by (simp add: update_metrics_def t)
  then have ok: "ok" and lg: "logged = []" and eq: "db' = db3"
    using r by auto
  have r': "record_event e db ?t (PDict ?d) (PStr w) (PStr uid) s ip ua = (True, [], db')"
    using res eq by simp
  have ev3: "analytics_events db3 = analytics_events ?db0"
    using update_metrics_try_spin [OF t w] by auto
  have evs: "analytics_events db' =
       analytics_events db @ [event_row e ?t j (SqlText ''wheel_spin'') (SqlText w) (SqlText uid) sv ip ua]"
    by (simp add: eq ev3 insert_event_simps)
  obtain tv en kvs where kvs: "PDict ?d = PDict kvs"
    and en: "bind_param (dict_get kvs ''total_entries'' (PInt 0)) = Inr en"
    and row: "find_wheel_metrics db' (SqlText w) =
             Some \<lparr>wm_wheel_id = SqlText w,
                   wm_wheel_title = text_affinity tv,
                   wm_total_spins =
                     (case find_wheel_metrics db (SqlText w) of
                        Some r \<Rightarrow> wm_total_spins r | None \<Rightarrow> 0) + 1,
                   wm_unique_users = count_distinct_users db' (SqlText w),
                   wm_total_entries = integer_affinity (env_numeric_of_text e) en,
                   wm_created_at = env_current_timestamp e,
                   wm_updated_at = env_current_timestamp e\<rparr>"
    using record_spin_row [OF r' w] by blast
  have k: "kvs = ?d"
    using kvs by simp
  have en5: "en = SqlInt 5"
    using en unfolding k g2 by simp
  have users: "spin_user_ids db' (SqlText w) = spin_user_ids db (SqlText w) @ [SqlText uid]"
    by (simp add: spin_user_ids_def evs event_row_def sql_eq_text)
  have ww1: "wheel_winners db1 (SqlText w) = wheel_winners ?db0 (SqlText w)"
    using upsert_wheel_metrics_frame(2) [OF db1] by (simp add: wheel_winners_def)
  have ww0: "wheel_winners ?db0 (SqlText w) = wheel_winners db (SqlText w)"
    by (simp add: wheel_winners_def insert_event_simps)
  have ww3: "wheel_winners db3 (SqlText w) = wheel_winners db2 (SqlText w)"
    using db3 upsert_engagement_frame(3) [of e db2 ?t "PStr uid" s db3]
    by (auto simp: wheel_winners_def split: if_splits)
  have ww2: "wheel_winners db2 (SqlText w) =
            filter (\<lambda>r. wf_winner_name r \<noteq> SqlText ''Alice'') (wheel_winners db1 (SqlText w)) @
            [\<lparr>wf_wheel_id = SqlText w, wf_winner_name = SqlText ''Alice'',
              wf_frequency_count =
                (case find (\<lambda>r. wf_winner_name r = SqlText ''Alice'') (wheel_winners db1 (SqlText w)) of
                   Some r \<Rightarrow> wf_frequency_count r | None \<Rightarrow> 0) + 1,
              wf_last_won = env_current_timestamp e,
              wf_created_at = env_current_timestamp e,
              wf_updated_at = env_current_timestamp e\<rparr>]"
    using upsert_winner_wheel_winners [OF db2] by auto
  show ?thesis
    using ok lg users row en5 ww2 by (simp add: eq ww3 ww1 ww0)
qed

lemma three_spins:
  assumes w: "w \<noteq> []"
    and f1: "SqlText w \<notin> wm_wheel_id ` set (wheel_metrics db0)"
    and f2: "spin_user_ids db0 (SqlText w) = []"
    and f3: "wheel_winners db0 (SqlText w) = []"
    and d: "distinct [u1, u2, u3]"
    and n1: "env_record_fault e1 = (\<lambda>step. None)" "env_metrics_fault e1 = (\<lambda>step. None)"
    and n2: "env_record_fault e2 = (\<lambda>step. None)" "env_metrics_fault e2 = (\<lambda>step. None)"
    and n3: "env_record_fault e3 = (\<lambda>step. None)" "env_metrics_fault e3 = (\<lambda>step. None)"
    and b: "\<not> isl (bind_param s1)" "\<not> isl (bind_param s2)" "\<not> isl (bind_param s3)"
    and r1: "r1 = record_event e1 db0 (PStr ''wheel_spin'')
               (PDict [(''winner'', PStr ''Alice''), (''total_entries'', PInt 5)])
               (PStr w) (PStr u1) s1 ip1 ua1"
    and r2: "r2 = record_event e2 (database_after r1) (PStr ''wheel_spin'')
               (PDict [(''winner'', PStr ''Alice''), (''total_entries'', PInt 5)])
               (PStr w) (PStr u2) s2 ip2 ua2"
    and r3: "r3 = record_event e3 (database_after r2) (PStr ''wheel_spin'')
               (PDict [(''winner'', PStr ''Alice''), (''total_entries'', PInt 5)])
               (PStr w) (PStr u3) s3 ip3 ua3"
    and win: "1 \<le> env_today e4 - 30" "env_today e4 - 30 \<le> 3652059"
  shows "succeeded r1 \<and> succeeded r2 \<and> succeeded r3
       \<and> (\<exists>rep. get_wheel_analytics e4 (database_after r3) w 30 = (Report rep, database_after r3)
              \<and> rp_total_spins rep = 3 \<and> rp_unique_users rep = 3
              \<and> rp_winner_distribution rep = [(SqlText ''Alice'', 3, env_current_timestamp e3)])"
proof -
  have p1: "r1 = (fst r1, fst (snd r1), database_after r1)"
    and p2: "r2 = (fst r2, fst (snd r2), database_after r2)"
    and p3: "r3 = (fst r3, fst (snd r3), database_after r3)"
    by (simp_all add: database_after_def)
  have none0: "find_wheel_metrics db0 (SqlText w) = None"
    using f1 by (force simp: find_wheel_metrics_def find_None_iff sql_eq_text)
  note s1 = spin_alice_step [OF w n1 b(1), of db0 u1 ip1 ua1 "fst r1" "fst (snd r1)" "database_after r1"]
  have st1: "fst r1 \<and> fst (snd r1) = []
       \<and> spin_user_ids (database_after r1) (SqlText w) = [SqlText u1]
       \<and> (\<exists>m. find_wheel_metrics (database_after r1) (SqlText w) = Some m \<and> wm_total_spins m = 1)
       \<and> wheel_winners (database_after r1) (SqlText w) =
            [\<lparr>wf_wheel_id = SqlText w, wf_winner_name = SqlText ''Alice'', wf_frequency_count = 1,
              wf_last_won = env_current_timestamp e1, wf_created_at = env_current_timestamp e1,
              wf_updated_at = env_current_timestamp e1\<rparr>]"
    using s1 p1 by (auto simp: r1 [symmetric] f2 f3 none0)
  then obtain m1 where m1: "find_wheel_metrics (database_after r1) (SqlText w) = Some m1"
      "wm_total_spins m1 = 1"
    by blast
  note s2 = spin_alice_step [OF w n2 b(2), of "database_after r1" u2 ip2 ua2
      "fst r2" "fst (snd r2)" "database_after r2"]
  have st2: "fst r2 \<and> fst (snd r2) = []
       \<and> spin_user_ids (database_after r2) (SqlText w) = [SqlText u1, SqlText u2]
       \<and> (\<exists>m. find_wheel_metrics (database_after r2) (SqlText w) = Some m \<and> wm_total_spins m = 2)
       \<and> wheel_winners (database_after r2) (SqlText w) =
            [\<lparr>wf_wheel_id = SqlText w, wf_winner_name = SqlText ''Alice'', wf_frequency_count = 2,
              wf_last_won = env_current_timestamp e2, wf_created_at = env_current_timestamp e2,
              wf_updated_at = env_current_timestamp e2\<rparr>]"
    using s2 p2 st1 m1 by (auto simp: r2 [symmetric])
  then obtain m2 where m2: "find_wheel_metrics (database_after r2) (SqlText w) = Some m2"
      "wm_total_spins m2 = 2"
    by blast
  note s3 = spin_alice_step [OF w n3 b(3), of "database_after r2" u3 ip3 ua3
      "fst r3" "fst (snd r3)" "database_after r3"]
  have st3: "fst r3 \<and> fst (snd r3) = []
       \<and> spin_user_ids (database_after r3) (SqlText w) = [SqlText u1, SqlText u2, SqlText u3]
       \<and> (\<exists>m. find_wheel_metrics (database_after r3) (SqlText w) = Some m \<and> wm_total_spins m = 3
              \<and> wm_unique_users m = count_distinct_users (database_after r3) (SqlText w))
       \<and> wheel_winners (database_after r3) (SqlText w) =
            [\<lparr>wf_wheel_id = SqlText w, wf_winner_name = SqlText ''Alice'', wf_frequency_count = 3,
              wf_last_won = env_current_timestamp e3, wf_created_at = env_current_timestamp e3,
              wf_updated_at = env_current_timestamp e3\<rparr>]"
    using s3 p3 st2 m2 by (auto simp: r3 [symmetric])
  then obtain m3 where m3: "find_wheel_metrics (database_after r3) (SqlText w) = Some m3"
      "wm_total_spins m3 = 3"
      "wm_unique_users m3 = count_distinct_users (database_after r3) (SqlText w)"
    by blast
  have users: "count_distinct_users (database_after r3) (SqlText w) = 3"
    using st3 d by (simp add: count_distinct_users_def)
  have dist: "winner_distribution_query (database_after r3) (SqlText w) =
              [(SqlText ''Alice'', 3, env_current_timestamp e3)]"
    using st3 by (simp add: winner_distribution_query_def)
  have rep: "\<exists>rep. get_wheel_analytics e4 (database_after r3) w 30 = (Report rep, database_after r3)
              \<and> rp_total_spins rep = 3 \<and> rp_unique_users rep = 3
              \<and> rp_winner_distribution rep = [(SqlText ''Alice'', 3, env_current_timestamp e3)]"
    using win m3 users dist
    by (simp add: get_wheel_analytics_def timedelta_days_def date_minus_def)
  show ?thesis
    using st1 st2 st3 rep by (simp add: succeeded_def)
qed

text \<open>
  Claim C1, as the code has it. A call of \<open>record_event\<close> with the type \<open>wheel_spin\<close>
  and a non-empty wheel id that returns true and logs no error (its metrics update went
  through) leaves exactly one metrics row for the wheel; its \<open>total_spins\<close> is the
  prior value, or 0 without a prior row, plus one, and its \<open>unique_users\<close> is the
  number of distinct non-null user ids over all spin events recorded for the wheel. In
  particular, three calls with the payload \<open>{winner: 'Alice', total_entries: 5}\<close>,
  three distinct user ids and session ids that can be stored, on a database with no
  metrics row, no spin events and no winners for the wheel and with SQLite raising no
  error of its own, all succeed, and \<open>get_wheel_analytics\<close> with the default 30 days
  then reports \<open>total_spins = 3\<close>, \<open>unique_users = 3\<close> and the winner distribution of
  Alice alone with count 3.
\<close>

theorem wheel_spin_metrics:
  "(w \<noteq> [] \<and> succeeded (record_event e db (PStr ''wheel_spin'') d (PStr w) u s ip ua) \<longrightarrow>
      (\<exists>m. find_wheel_metrics
               (database_after (record_event e db (PStr ''wheel_spin'') d (PStr w) u s ip ua))
               (SqlText w) = Some m
          \<and> length (filter (\<lambda>r. wm_wheel_id r = SqlText w)
               (wheel_metrics
                  (database_after (record_event e db (PStr ''wheel_spin'') d (PStr w) u s ip ua))))
             = 1
          \<and> wm_total_spins m =
              (case find_wheel_metrics db (SqlText w) of Some r \<Rightarrow> wm_total_spins r | None \<Rightarrow> 0) + 1
          \<and> wm_unique_users m =
              int (card {uid. uid \<noteq> SqlNull \<and>
                    (\<exists>ev \<in> set (analytics_events
                        (database_after (record_event e db (PStr ''wheel_spin'') d (PStr w) u s ip ua))).
                       ev_event_type ev = SqlText ''wheel_spin'' \<and> ev_wheel_id ev = SqlText w \<and>
                       ev_user_id ev = uid)})))
   \<and> (w \<noteq> [] \<and> SqlText w \<notin> wm_wheel_id ` set (wheel_metrics db0)
        \<and> spin_user_ids db0 (SqlText w) = [] \<and> wheel_winners db0 (SqlText w) = []
        \<and> distinct [u1, u2, u3]
        \<and> env_record_fault e1 = (\<lambda>step. None) \<and> env_metrics_fault e1 = (\<lambda>step. None)
        \<and> env_record_fault e2 = (\<lambda>step. None) \<and> env_metrics_fault e2 = (\<lambda>step. None)
        \<and> env_record_fault e3 = (\<lambda>step. None) \<and> env_metrics_fault e3 = (\<lambda>step. None)
        \<and> \<not> isl (bind_param s1) \<and> \<not> isl (bind_param s2) \<and> \<not> isl (bind_param s3)
        \<and> r1 = record_event e1 db0 (PStr ''wheel_spin'')
                 (PDict [(''winner'', PStr ''Alice''), (''total_entries'', PInt 5)])
                 (PStr w) (PStr u1) s1 ip1 ua1
        \<and> r2 = record_event e2 (database_after r1) (PStr ''wheel_spin'')
                 (PDict [(''winner'', PStr ''Alice''), (''total_entries'', PInt 5)])
                 (PStr w) (PStr u2) s2 ip2 ua2
        \<and> r3 = record_event e3 (database_after r2) (PStr ''wheel_spin'')
                 (PDict [(''winner'', PStr ''Alice''), (''total_entries'', PInt 5)])
                 (PStr w) (PStr u3) s3 ip3 ua3
        \<and> 1 \<le> env_today e4 - 30 \<and> env_today e4 - 30 \<le> 3652059 \<longrightarrow>
      succeeded r1 \<and> succeeded r2 \<and> succeeded r3
      \<and> (\<exists>rep. get_wheel_analytics e4 (database_after r3) w 30 = (Report rep, database_after r3)
             \<and> rp_total_spins rep = 3 \<and> rp_unique_users rep = 3
             \<and> rp_winner_distribution rep = [(SqlText ''Alice'', 3, env_current_timestamp e3)]))"
proof (intro conjI impI)
  assume "w \<noteq> [] \<and> succeeded (record_event e db (PStr ''wheel_spin'') d (PStr w) u s ip ua)"
  then show "\<exists>m. find_wheel_metrics
               (database_after (record_event e db (PStr ''wheel_spin'') d (PStr w) u s ip ua))
               (SqlText w) = Some m
          \<and> length (filter (\<lambda>r. wm_wheel_id r = SqlText w)
               (wheel_metrics
                  (database_after (record_event e db (PStr ''wheel_spin'') d (PStr w) u s ip ua))))
             = 1
          \<and> wm_total_spins m =
              (case find_wheel_metrics db (SqlText w) of Some r \<Rightarrow> wm_total_spins r | None \<Rightarrow> 0) + 1
          \<and> wm_unique_users m =
              int (card {uid. uid \<noteq> SqlNull \<and>
                    (\<exists>ev \<in> set (analytics_events
                        (database_after (record_event e db (PStr ''wheel_spin'') d (PStr w) u s ip ua))).
                       ev_event_type ev = SqlText ''wheel_spin'' \<and> ev_wheel_id ev = SqlText w \<and>
                       ev_user_id ev = uid)})"
    using spin_metrics_row [of w e db d u s ip ua] by blast
next
  assume h: "w \<noteq> [] \<and> SqlText w \<notin> wm_wheel_id ` set (wheel_metrics db0)
        \<and> spin_user_ids db0 (SqlText w) = [] \<and> wheel_winners db0 (SqlText w) = []
        \<and> distinct [u1, u2, u3]
        \<and> env_record_fault e1 = (\<lambda>step. None) \<and> env_metrics_fault e1 = (\<lambda>step. None)
        \<and> env_record_fault e2 = (\<lambda>step. None) \<and> env_metrics_fault e2 = (\<lambda>step. None)
        \<and> env_record_fault e3 = (\<lambda>step. None) \<and> env_metrics_fault e3 = (\<lambda>step. None)
        \<and> \<not> isl (bind_param s1) \<and> \<not> isl (bind_param s2) \<and> \<not> isl (bind_param s3)
        \<and> r1 = record_event e1 db0 (PStr ''wheel_spin'')
                 (PDict [(''winner'', PStr ''Alice''), (''total_entries'', PInt 5)])
                 (PStr w) (PStr u1) s1 ip1 ua1
        \<and> r2 = record_event e2 (database_after r1) (PStr ''wheel_spin'')
                 (PDict [(''winner'', PStr ''Alice''), (''total_entries'', PInt 5)])
                 (PStr w) (PStr u2) s2 ip2 ua2
        \<and> r3 = record_event e3 (database_after r2) (PStr ''wheel_spin'')
                 (PDict [(''winner'', PStr ''Alice''), (''total_entries'', PInt 5)])
                 (PStr w) (PStr u3) s3 ip3 ua3
        \<and> 1 \<le> env_today e4 - 30 \<and> env_today e4 - 30 \<le> 3652059"
  have t: "succeeded r1 \<and> succeeded r2 \<and> succeeded r3
      \<and> (\<exists>rep. get_wheel_analytics e4 (database_after r3) w 30 = (Report rep, database_after r3)
             \<and> rp_total_spins rep = 3 \<and> rp_unique_users rep = 3
             \<and> rp_winner_distribution rep = [(SqlText ''Alice'', 3, env_current_timestamp e3)])"
    by (rule three_spins [of w db0 u1 u2 u3 e1 e2 e3 s1 s2 s3 r1 ip1 ua1 r2 ip2 ua2 r3 ip3 ua3 e4])
       (use h in blast)+
  from t show "succeeded r1" by blast
  from t show "succeeded r2" by blast
  from t show "succeeded r3" by blast
  from t show "\<exists>rep. get_wheel_analytics e4 (database_after r3) w 30 = (Report rep, database_after r3)
             \<and> rp_total_spins rep = 3 \<and> rp_unique_users rep = 3
             \<and> rp_winner_distribution rep = [(SqlText ''Alice'', 3, env_current_timestamp e3)]"
    by blast
qed

text \<open>
  The three spins of the example on the empty database satisfy every hypothesis.
\<close>

theorem wheel_spin_metrics_witness:
  "''w1'' \<noteq> []
   \<and> SqlText ''w1'' \<notin> wm_wheel_id ` set (wheel_metrics empty_database)
   \<and> spin_user_ids empty_database (SqlText ''w1'') = []
   \<and> wheel_winners empty_database (SqlText ''w1'') = []
   \<and> distinct [''u1'', ''u2'', ''u3'']
   \<and> env_record_fault example_env = (\<lambda>step. None)
   \<and> env_metrics_fault example_env = (\<lambda>step. None)
   \<and> \<not> isl (bind_param PNone)
   \<and> 1 \<le> env_today example_env - 30 \<and> env_today example_env - 30 \<le> 3652059
   \<and> succeeded first_spin \<and> succeeded second_spin \<and> succeeded third_spin
   \<and> (\<exists>m. find_wheel_metrics (database_after first_spin) (SqlText ''w1'') = Some m
          \<and> wm_total_spins m = 1)
   \<and> (\<exists>rep. get_wheel_analytics example_env (database_after third_spin) ''w1'' 30 =
               (Report rep, database_after third_spin)
          \<and> rp_total_spins rep = 3 \<and> rp_unique_users rep = 3
          \<and> rp_winner_distribution rep =
               [(SqlText ''Alice'', 3, env_current_timestamp example_env)])"
proof -
  have a: "''w1'' \<noteq> []" by simp
  have b: "SqlText ''w1'' \<notin> wm_wheel_id ` set (wheel_metrics empty_database)"
    by (simp add: empty_database_def)
  have c: "spin_user_ids empty_database (SqlText ''w1'') = []"
    by (simp add: spin_user_ids_def empty_database_def)
  have d: "wheel_winners empty_database (SqlText ''w1'') = []"
    by (simp add: wheel_winners_def empty_database_def)
  have e: "distinct [''u1'', ''u2'', ''u3'']" by simp
  have f: "1 \<le> env_today example_env - 30 \<and> env_today example_env - 30 \<le> 3652059"
    by (simp add: example_env_def)
  have n: "env_record_fault example_env = (\<lambda>step. None)"
      "env_metrics_fault example_env = (\<lambda>step. None)"
    by (simp_all add: example_env_def)
  have s: "\<not> isl (bind_param PNone)" by simp
  have none: "find_wheel_metrics empty_database (SqlText ''w1'') = None"
    by (simp add: find_wheel_metrics_def empty_database_def)
  note t = wheel_spin_metrics [where w = "''w1''" and e = example_env and db = empty_database
      and d = "PDict [(''winner'', PStr ''Alice''), (''total_entries'', PInt 5)]"
      and u = "PStr ''u1''" and s = PNone and ip = None and ua = None
      and ?db0.0 = empty_database and ?u1.0 = "''u1''" and ?u2.0 = "''u2''" and ?u3.0 = "''u3''"
      and ?r1.0 = first_spin and ?r2.0 = second_spin and ?r3.0 = third_spin
      and ?e1.0 = example_env and ?e2.0 = example_env and ?e3.0 = example_env and ?e4.0 = example_env
      and ?s1.0 = PNone and ?s2.0 = PNone and ?s3.0 = PNone
      and ?ip1.0 = None and ?ip2.0 = None and ?ip3.0 = None
      and ?ua1.0 = None and ?ua2.0 = None and ?ua3.0 = None]
  have g: "succeeded first_spin \<and> succeeded second_spin \<and> succeeded third_spin
      \<and> (\<exists>rep. get_wheel_analytics example_env (database_after third_spin) ''w1'' 30 =
               (Report rep, database_after third_spin)
          \<and> rp_total_spins rep = 3 \<and> rp_unique_users rep = 3
          \<and> rp_winner_distribution rep =
               [(SqlText ''Alice'', 3, env_current_timestamp example_env)])"
    using t a b c d e f n s first_spin_def second_spin_def third_spin_def by blast
  then have "succeeded (record_event example_env empty_database (PStr ''wheel_spin'')
       (PDict [(''winner'', PStr ''Alice''), (''total_entries'', PInt 5)])
       (PStr ''w1'') (PStr ''u1'') PNone None None)"
    by (simp add: first_spin_def)
  then have h: "\<exists>m. find_wheel_metrics (database_after first_spin) (SqlText ''w1'') = Some m
      \<and> wm_total_spins m = 1"
    using t a none unfolding first_spin_def [symmetric] by auto
  show ?thesis
    using a b c d e f g h n s by blast
qed

text \<open>
  Claim C1 as stated fails, since \<open>record_event\<close> also returns true when the metrics
  were not updated. A spin for the wheel id \<open>''\<close> succeeds and writes no metrics row.
  And after the first spin of the example, a spin of the same wheel by a second user with
  a list as \<open>total_entries\<close> returns true while the metrics update fails: the row still
  has \<open>total_spins = 1\<close> and \<open>unique_users = 1\<close>, with two users in the spin events.
\<close>

theorem spin_without_metrics_counterexample:
  "succeeded (record_event example_env empty_database (PStr ''wheel_spin'')
                (PDict [(''winner'', PStr ''Alice''), (''total_entries'', PInt 5)])
                (PStr []) (PStr ''u1'') PNone None None)
   \<and> wheel_metrics (database_after
        (record_event example_env empty_database (PStr ''wheel_spin'')
           (PDict [(''winner'', PStr ''Alice''), (''total_entries'', PInt 5)])
           (PStr []) (PStr ''u1'') PNone None None)) = []
   \<and> map (\<lambda>r. (wm_wheel_id r, wm_total_spins r, wm_unique_users r))
        (wheel_metrics (database_after first_spin)) = [(SqlText ''w1'', 1, 1)]
   \<and> fst (record_event example_env (database_after first_spin) (PStr ''wheel_spin'')
             (PDict [(''winner'', PStr ''Alice''), (''total_entries'', PList [])])
             (PStr ''w1'') (PStr ''u2'') PNone None None) = True
   \<and> map (\<lambda>r. (wm_wheel_id r, wm_total_spins r, wm_unique_users r))
        (wheel_metrics (database_after
           (record_event example_env (database_after first_spin) (PStr ''wheel_spin'')
              (PDict [(''winner'', PStr ''Alice''), (''total_entries'', PList [])])
              (PStr ''w1'') (PStr ''u2'') PNone None None))) = [(SqlText ''w1'', 1, 1)]
   \<and> count_distinct_users (database_after
        (record_event example_env (database_after first_spin) (PStr ''wheel_spin'')
           (PDict [(''winner'', PStr ''Alice''), (''total_entries'', PList [])])
           (PStr ''w1'') (PStr ''u2'') PNone None None)) (SqlText ''w1'') = 2"
  by code_simp

subsection \<open>The stored number of entries\<close>

lemma spin_total_entries:
  assumes w: "w \<noteq> []"
    and ok: "succeeded (record_event e db (PStr ''wheel_spin'') (PDict d) (PStr w) u s ip ua)"
  shows "\<exists>m x. find_wheel_metrics
                 (database_after (record_event e db (PStr ''wheel_spin'') (PDict d) (PStr w) u s ip ua))
                 (SqlText w) = Some m
           \<and> bind_param (dict_get d ''total_entries'' (PInt 0)) = Inr x
           \<and> wm_total_entries m = integer_affinity (env_numeric_of_text e) x"
proof -
  let ?db' = "database_after (record_event e db (PStr ''wheel_spin'') (PDict d) (PStr w) u s ip ua)"
  have r: "record_event e db (PStr ''wheel_spin'') (PDict d) (PStr w) u s ip ua = (True, [], ?db')"
    using ok by (simp add: succeeded_iff [symmetric])
  show ?thesis
    using record_spin_row [OF r w] by auto
qed

text \<open>
  Claim C7, as the code has it. When a spin for a wheel is recorded and the metrics
  update succeeds, the stored \<open>total_entries\<close> is the payload's \<open>total_entries\<close>
  value as SQLite stores it (an integer as itself) if the payload has the field, and 0
  if the payload has no such field: the previous value is never kept.
\<close>

theorem total_entries_overwritten:
  "w \<noteq> [] \<and> succeeded (record_event e db (PStr ''wheel_spin'') (PDict d) (PStr w) u s ip ua) \<longrightarrow>
     (\<exists>m. find_wheel_metrics
              (database_after (record_event e db (PStr ''wheel_spin'') (PDict d) (PStr w) u s ip ua))
              (SqlText w) = Some m
         \<and> (map_of d ''total_entries'' = None \<longrightarrow> wm_total_entries m = SqlInt 0)
         \<and> (\<forall>n. map_of d ''total_entries'' = Some (PInt n) \<longrightarrow> wm_total_entries m = SqlInt n)
         \<and> (\<forall>v x. map_of d ''total_entries'' = Some v \<and> bind_param v = Inr x \<longrightarrow>
                wm_total_entries m = integer_affinity (env_numeric_of_text e) x))"
proof
  assume h: "w \<noteq> [] \<and> succeeded (record_event e db (PStr ''wheel_spin'') (PDict d) (PStr w) u s ip ua)"
  obtain m x where m: "find_wheel_metrics
        (database_after (record_event e db (PStr ''wheel_spin'') (PDict d) (PStr w) u s ip ua))
        (SqlText w) = Some m"
    and x: "bind_param (dict_get d ''total_entries'' (PInt 0)) = Inr x"
    and v: "wm_total_entries m = integer_affinity (env_numeric_of_text e) x"
    using spin_total_entries [of w e db d u s ip ua] h by blast
  have a: "wm_total_entries m = SqlInt 0" if "map_of d ''total_entries'' = None"
    using that x v by (auto simp: dict_get_def)
  have b: "wm_total_entries m = SqlInt n" if "map_of d ''total_entries'' = Some (PInt n)" for n
    using that x v by (auto simp: dict_get_def split: if_splits)
  have c: "wm_total_entries m = integer_affinity (env_numeric_of_text e) y"
    if "map_of d ''total_entries'' = Some v' \<and> bind_param v' = Inr y" for v' y
    using that x v by (auto simp: dict_get_def)
  show "\<exists>m. find_wheel_metrics
              (database_after (record_event e db (PStr ''wheel_spin'') (PDict d) (PStr w) u s ip ua))
              (SqlText w) = Some m
         \<and> (map_of d ''total_entries'' = None \<longrightarrow> wm_total_entries m = SqlInt 0)
         \<and> (\<forall>n. map_of d ''total_entries'' = Some (PInt n) \<longrightarrow> wm_total_entries m = SqlInt n)
         \<and> (\<forall>v x. map_of d ''total_entries'' = Some v \<and> bind_param v = Inr x \<longrightarrow>
                wm_total_entries m = integer_affinity (env_numeric_of_text e) x)"
  proof (intro exI [of _ m] conjI allI impI)
    show "find_wheel_metrics
            (database_after (record_event e db (PStr ''wheel_spin'') (PDict d) (PStr w) u s ip ua))
            (SqlText w) = Some m"
      by (rule m)
  next
    assume "map_of d ''total_entries'' = None"
    then show "wm_total_entries m = SqlInt 0" by (rule a)
  next
    fix n assume "map_of d ''total_entries'' = Some (PInt n)"
    then show "wm_total_entries m = SqlInt n" by (rule b)
  next
    fix v x assume "map_of d ''total_entries'' = Some v \<and> bind_param v = Inr x"
    then show "wm_total_entries m = integer_affinity (env_numeric_of_text e) x" by (rule c)
  qed
qed

lemma first_spin_succeeded: "succeeded first_spin"
  by code_simp

theorem total_entries_overwritten_witness:
  "''w1'' \<noteq> []
   \<and> succeeded first_spin
   \<and> map_of [(''winner'', PStr ''Alice''), (''total_entries'', PInt 5)] ''total_entries'' = Some (PInt 5)
   \<and> bind_param (PInt 5) = Inr (SqlInt 5)
   \<and> (\<exists>m. find_wheel_metrics (database_after first_spin) (SqlText ''w1'') = Some m
          \<and> wm_total_entries m = SqlInt 5)"
proof -
  have a: "''w1'' \<noteq> []" by simp
  have b: "succeeded (record_event example_env empty_database (PStr ''wheel_spin'')
       (PDict [(''winner'', PStr ''Alice''), (''total_entries'', PInt 5)])
       (PStr ''w1'') (PStr ''u1'') PNone None None)"
    using first_spin_succeeded by (simp add: first_spin_def)
  have c: "map_of [(''winner'', PStr ''Alice''), (''total_entries'', PInt 5)] ''total_entries''
           = Some (PInt 5)"
    by simp
  have d: "bind_param (PInt 5) = Inr (SqlInt 5)" by simp
  have "\<exists>m. find_wheel_metrics (database_after first_spin) (SqlText ''w1'') = Some m
          \<and> wm_total_entries m = SqlInt 5"
    using total_entries_overwritten [where w = "''w1''" and e = example_env and db = empty_database
        and d = "[(''winner'', PStr ''Alice''), (''total_entries'', PInt 5)]"
        and u = "PStr ''u1''" and s = PNone and ip = None and ua = None] a b c
    unfolding first_spin_def [symmetric] by blast
  then show ?thesis
    using a first_spin_succeeded c d by blast
qed

text \<open>
  Claim C7 as stated fails: after the first spin of the example the wheel has 5 entries
  stored; a second spin whose payload has no \<open>total_entries\<close> succeeds and leaves 0.
\<close>

theorem total_entries_reset_counterexample:
  "map wm_total_entries (wheel_metrics (database_after first_spin)) = [SqlInt 5]
   \<and> map_of ([] :: (string \<times> py_value) list) ''total_entries'' = None
   \<and> succeeded (record_event example_env (database_after first_spin) (PStr ''wheel_spin'') (PDict [])
                   (PStr ''w1'') (PStr ''u1'') PNone None None)
   \<and> map wm_total_entries
        (wheel_metrics (database_after
           (record_event example_env (database_after first_spin) (PStr ''wheel_spin'') (PDict [])
              (PStr ''w1'') (PStr ''u1'') PNone None None))) = [SqlInt 0]"
  by code_simp

subsection \<open>The result of recording an event\<close>

lemma update_metrics_try_events:
  assumes "update_metrics_try e db t d w u s = Inr db'"
  shows "analytics_events db' = analytics_events db"
proof -
  obtain db2 where db2:
    "(if t = PStr ''wheel_spin'' \<and> py_truthy w
      then (case upsert_wheel_metrics e db w d of
              Inl ex \<Rightarrow> Inl ex
            | Inr db1 \<Rightarrow>
                (case event_data_get d ''winner'' PNone of
                   Inl ex \<Rightarrow> Inl ex
                 | Inr winner \<Rightarrow>
                     if py_truthy winner then upsert_winner e db1 w winner else Inr db1))
      else Inr db) = Inr db2"
    and db3: "(if py_truthy u \<and> py_truthy s then upsert_engagement e db2 t u s else Inr db2) = Inr db'"
    using assms
    by (auto simp: update_metrics_try_def split: option.splits sum.splits)
  have a: "analytics_events db2 = analytics_events db"
    using db2 upsert_wheel_metrics_frame(1) [of e db w d] upsert_winner_frame(1) [of e _ w _ db2]
    by (auto split: if_splits sum.splits)
  have b: "analytics_events db' = analytics_events db2"
    using db3 upsert_engagement_frame(1) [of e db2 t u s db'] by (auto split: if_splits)
  show ?thesis
    using a b by simp
qed

lemma bind_param_null: "bind_param v = Inr SqlNull \<longleftrightarrow> v = PNone"
  by (cases v) (auto split: if_splits)

lemma record_event_try_ok:
  "(\<exists>db1. record_event_try e db t d w u s ip ua = Inr db1) \<longleftrightarrow>
     env_record_fault e Connect = None \<and> json_dumps d \<noteq> None
     \<and> \<not> isl (bind_param t) \<and> \<not> isl (bind_param w)
     \<and> \<not> isl (bind_param u) \<and> \<not> isl (bind_param s)
     \<and> t \<noteq> PNone
     \<and> env_record_fault e (Execute 1) = None \<and> env_record_fault e Commit = None"
  by (auto simp: record_event_try_def bind_param_null simp del: json_dumps.simps
           split: option.splits sum.splits)

lemma record_event_fst:
  "fst (record_event e db t d w u s ip ua) \<longleftrightarrow>
     (\<exists>db1. record_event_try e db t d w u s ip ua = Inr db1)"
  by (auto simp: record_event_def split: sum.splits prod.splits)

text \<open>
  Claim C3, as the code has it. \<open>record_event\<close> always returns a value. It returns
  false exactly when the insert into the event log fails: the connection cannot be
  opened, the payload cannot be serialised, the event type or one of the ids cannot be
  bound, the event type is \<open>None\<close>, or SQLite fails to run or to commit the statement.
  Then one error is logged and the database is unchanged. When the insert goes through
  it returns true, with the new row at the end of the event log, whatever the metrics
  update does: a failing metrics update is logged, its writes are dropped, and the
  database is the old one with the new event row.
\<close>

theorem record_event_result:
  "(fst (record_event e db t d w u s ip ua) \<longleftrightarrow>
      env_record_fault e Connect = None \<and> json_dumps d \<noteq> None
      \<and> \<not> isl (bind_param t) \<and> \<not> isl (bind_param w)
      \<and> \<not> isl (bind_param u) \<and> \<not> isl (bind_param s)
      \<and> t \<noteq> PNone
      \<and> env_record_fault e (Execute 1) = None \<and> env_record_fault e Commit = None)
   \<and> (\<not> fst (record_event e db t d w u s ip ua) \<longrightarrow>
        (\<exists>ex. record_event e db t d w u s ip ua = (False, [ErrorRecordingEvent ex], db)))
   \<and> (fst (record_event e db t d w u s ip ua) \<longrightarrow>
        (\<exists>row. analytics_events (database_after (record_event e db t d w u s ip ua)) =
                 analytics_events db @ [row]))
   \<and> (\<forall>db1 ex. record_event_try e db t d w u s ip ua = Inr db1
          \<and> update_metrics_try e db1 t d w u s = Inl ex
        \<longrightarrow> record_event e db t d w u s ip ua = (True, [ErrorUpdatingMetrics ex], db1))
   \<and> (\<forall>db1 db2. record_event_try e db t d w u s ip ua = Inr db1
          \<and> update_metrics_try e db1 t d w u s = Inr db2
        \<longrightarrow> record_event e db t d w u s ip ua = (True, [], db2))"
proof (intro conjI allI impI)
  show "fst (record_event e db t d w u s ip ua) \<longleftrightarrow>
      env_record_fault e Connect = None \<and> json_dumps d \<noteq> None
      \<and> \<not> isl (bind_param t) \<and> \<not> isl (bind_param w)
      \<and> \<not> isl (bind_param u) \<and> \<not> isl (bind_param s)
      \<and> t \<noteq> PNone
      \<and> env_record_fault e (Execute 1) = None \<and> env_record_fault e Commit = None"
    unfolding record_event_fst by (rule record_event_try_ok)
next
  assume "\<not> fst (record_event e db t d w u s ip ua)"
  then show "\<exists>ex. record_event e db t d w u s ip ua = (False, [ErrorRecordingEvent ex], db)"
    by (auto simp: record_event_def split: sum.splits prod.splits)
next
  assume "fst (record_event e db t d w u s ip ua)"
  then obtain db1 where i: "record_event_try e db t d w u s ip ua = Inr db1"
    unfolding record_event_fst by blast
  obtain row where row: "db1 = insert_event db row"
    using record_event_try_row [OF i] by blast
  have "analytics_events (database_after (record_event e db t d w u s ip ua)) = analytics_events db1"
  proof (cases "update_metrics_try e db1 t d w u s")
    case (Inl ex)
    then show ?thesis
      by (simp add: record_event_def i update_metrics_def database_after_def)
  next
    case (Inr db2)
    then show ?thesis
      using update_metrics_try_events [OF Inr]
      by (simp add: record_event_def i update_metrics_def database_after_def)
  qed
  then show "\<exists>row. analytics_events (database_after (record_event e db t d w u s ip ua)) =
                 analytics_events db @ [row]"
    using row by (auto simp: insert_event_simps)
next
  fix db1 ex
  assume "record_event_try e db t d w u s ip ua = Inr db1
          \<and> update_metrics_try e db1 t d w u s = Inl ex"
  then show "record_event e db t d w u s ip ua = (True, [ErrorUpdatingMetrics ex], db1)"
    by (simp add: record_event_def update_metrics_def)
next
  fix db1 db2
  assume "record_event_try e db t d w u s ip ua = Inr db1
          \<and> update_metrics_try e db1 t d w u s = Inr db2"
  then show "record_event e db t d w u s ip ua = (True, [], db2)"
    by (simp add: record_event_def update_metrics_def)
qed

text \<open>
  The two failures at concrete inputs: a call without an event type fails the insert; a
  payload whose \<open>total_entries\<close> is a list passes the insert and fails the metrics
  update.
\<close>

theorem record_event_result_witness:
  "\<not> fst (record_event example_env empty_database PNone (PDict []) (PStr ''w1'') PNone PNone
            None None)
   \<and> (\<exists>ex. record_event example_env empty_database PNone (PDict []) (PStr ''w1'') PNone PNone
              None None = (False, [ErrorRecordingEvent ex], empty_database))
   \<and> record_event_try example_env empty_database (PStr ''wheel_spin'')
        (PDict [(''total_entries'', PList [])]) (PStr ''w1'') PNone PNone None None =
       Inr (insert_event empty_database
              (event_row example_env (PStr ''wheel_spin'')
                 ([CHR ''{'', CHR 0x22] @ ''total_entries'' @ [CHR 0x22] @ '': []}'')
                 (SqlText ''wheel_spin'') (SqlText ''w1'') SqlNull SqlNull None None))
   \<and> update_metrics_try example_env
        (insert_event empty_database
           (event_row example_env (PStr ''wheel_spin'')
              ([CHR ''{'', CHR 0x22] @ ''total_entries'' @ [CHR 0x22] @ '': []}'')
              (SqlText ''wheel_spin'') (SqlText ''w1'') SqlNull SqlNull None None))
        (PStr ''wheel_spin'') (PDict [(''total_entries'', PList [])]) (PStr ''w1'') PNone PNone =
       Inl UnsupportedBinding
   \<and> record_event example_env empty_database (PStr ''wheel_spin'')
        (PDict [(''total_entries'', PList [])]) (PStr ''w1'') PNone PNone None None =
       (True, [ErrorUpdatingMetrics UnsupportedBinding],
        insert_event empty_database
          (event_row example_env (PStr ''wheel_spin'')
             ([CHR ''{'', CHR 0x22] @ ''total_entries'' @ [CHR 0x22] @ '': []}'')
             (SqlText ''wheel_spin'') (SqlText ''w1'') SqlNull SqlNull None None))"
proof -
  have a: "\<not> fst (record_event example_env empty_database PNone (PDict []) (PStr ''w1'') PNone PNone
            None None)"
    using record_event_result [where e = example_env and db = empty_database and t = PNone
        and d = "PDict []" and w = "PStr ''w1''" and u = PNone and s = PNone
        and ip = None and ua = None]
    by blast
  have b: "\<exists>ex. record_event example_env empty_database PNone (PDict []) (PStr ''w1'') PNone PNone
              None None = (False, [ErrorRecordingEvent ex], empty_database)"
    using a record_event_result [where e = example_env and db = empty_database and t = PNone
        and d = "PDict []" and w = "PStr ''w1''" and u = PNone and s = PNone
        and ip = None and ua = None]
    by blast
  have c: "record_event_try example_env empty_database (PStr ''wheel_spin'')
        (PDict [(''total_entries'', PList [])]) (PStr ''w1'') PNone PNone None None =
       Inr (insert_event empty_database
              (event_row example_env (PStr ''wheel_spin'')
                 ([CHR ''{'', CHR 0x22] @ ''total_entries'' @ [CHR 0x22] @ '': []}'')
                 (SqlText ''wheel_spin'') (SqlText ''w1'') SqlNull SqlNull None None))"
    by code_simp
  have d: "update_metrics_try example_env
        (insert_event empty_database
           (event_row example_env (PStr ''wheel_spin'')
              ([CHR ''{'', CHR 0x22] @ ''total_entries'' @ [CHR 0x22] @ '': []}'')
              (SqlText ''wheel_spin'') (SqlText ''w1'') SqlNull SqlNull None None))
        (PStr ''wheel_spin'') (PDict [(''total_entries'', PList [])]) (PStr ''w1'') PNone PNone =
       Inl UnsupportedBinding"
    by code_simp
  have e: "record_event example_env empty_database (PStr ''wheel_spin'')
        (PDict [(''total_entries'', PList [])]) (PStr ''w1'') PNone PNone None None =
       (True, [ErrorUpdatingMetrics UnsupportedBinding],
        insert_event empty_database
          (event_row example_env (PStr ''wheel_spin'')
             ([CHR ''{'', CHR 0x22] @ ''total_entries'' @ [CHR 0x22] @ '': []}'')
             (SqlText ''wheel_spin'') (SqlText ''w1'') SqlNull SqlNull None None))"
    using record_event_result [where e = example_env and db = empty_database
        and t = "PStr ''wheel_spin''" and d = "PDict [(''total_entries'', PList [])]"
        and w = "PStr ''w1''" and u = PNone and s = PNone and ip = None and ua = None] c d
    by blast
  show ?thesis
    by (intro conjI a b c d e)
qed

text \<open>
  Claim C3 as stated fails: with a list as the winner the metrics update fails (it is
  logged and no aggregate table is written), and \<open>record_event\<close> still returns true.
\<close>

theorem metrics_failure_counterexample:
  "fst (record_event example_env empty_database (PStr ''wheel_spin'')
          (PDict [(''winner'', PList [PStr ''Alice''])])
          (PStr ''w1'') (PStr ''u1'') (PStr ''s1'') None None) = True
   \<and> fst (snd (record_event example_env empty_database (PStr ''wheel_spin'')
                 (PDict [(''winner'', PList [PStr ''Alice''])])
                 (PStr ''w1'') (PStr ''u1'') (PStr ''s1'') None None)) =
       [ErrorUpdatingMetrics UnsupportedBinding]
   \<and> wheel_metrics (database_after
        (record_event example_env empty_database (PStr ''wheel_spin'')
           (PDict [(''winner'', PList [PStr ''Alice''])])
           (PStr ''w1'') (PStr ''u1'') (PStr ''s1'') None None)) = []
   \<and> winner_frequency (database_after
        (record_event example_env empty_database (PStr ''wheel_spin'')
           (PDict [(''winner'', PList [PStr ''Alice''])])
           (PStr ''w1'') (PStr ''u1'') (PStr ''s1'') None None)) = []
   \<and> user_engagement (database_after
        (record_event example_env empty_database (PStr ''wheel_spin'')
           (PDict [(''winner'', PList [PStr ''Alice''])])
           (PStr ''w1'') (PStr ''u1'') (PStr ''s1'') None None)) = []"
  by code_simp

subsection \<open>The analytics of an unknown wheel\<close>




subsection \<open>The hash of a dictionary does not depend on the order of its keys\<close>




end
